theory Spec2Isabelle
  imports Main "HOL-Library.Multiset" "HOL-Library.Char_ord" "HOL-Library.List_Lexorder"
begin

section \<open>Enumerations (common/enum.ts)\<close>

datatype SuitEnum = SPADES | HEARTS | DIAMONDS | CLUBS

datatype RankEnum = R2 | R3 | R4 | R5 | R6 | R7 | R8 | R9 | R10 | J | Q | K | A

datatype HandRankEnum =
  HIGHCARD | ONEPAIR | TWOPAIR | THREEOFAKIND | STRAIGHT | FLUSH
  | FULLHOUSE | FOUROFKIND | STRAIGHTFLUSH | ROYALFLUSH

datatype RoundEnum =
  PreRoundBetting | PREFLOP | FLOP | TURN | RIVER | CARD_REVEAL | SHOWDOWN

datatype PlayerActionEnum = Fold | Check | Call | Raise | AllIn

datatype PlayerRoleEnum = DEALER | SMALL_BLIND | BIG_BLIND | VIEWER | NO_ROLE

text \<open>The string value that each enum member carries in the source.\<close>

fun rankString :: "RankEnum \<Rightarrow> string" where
  "rankString R2 = ''2''"
| "rankString R3 = ''3''"
| "rankString R4 = ''4''"
| "rankString R5 = ''5''"
| "rankString R6 = ''6''"
| "rankString R7 = ''7''"
| "rankString R8 = ''8''"
| "rankString R9 = ''9''"
| "rankString R10 = ''10''"
| "rankString J = ''J''"
| "rankString Q = ''Q''"
| "rankString K = ''K''"
| "rankString A = ''A''"

fun suitString :: "SuitEnum \<Rightarrow> string" where
  "suitString SPADES = ''SPADES''"
| "suitString HEARTS = ''HEARTS''"
| "suitString DIAMONDS = ''DIAMONDS''"
| "suitString CLUBS = ''CLUBS''"

section \<open>Cards (common/interface.ts, lib/Deck.ts)\<close>

record Card =
  rank :: RankEnum
  suit :: SuitEnum

text \<open>\<^verbatim>\<open>cardToString\<close>: the template \<^verbatim>\<open>`${card.rank}${card.suit}`\<close>.\<close>

definition cardToString :: "Card \<Rightarrow> string" where
  "cardToString c = rankString (rank c) @ suitString (suit c)"

text \<open>
  \<^verbatim>\<open>stringToCard\<close> matches the anchored regular expression
  \<^verbatim>\<open>/^([2-9]|10|J|Q|K|A)(SPADES|HEARTS|DIAMONDS|CLUBS)$/\<close>.
  The two groups are alternations of literals, tried from left to right with
  backtracking, so \<^verbatim>\<open>exec\<close> yields the first pair of alternatives whose
  concatenation is the whole input, and \<^verbatim>\<open>null\<close> when there is none.
\<close>

definition rankAlternatives :: "string list" where
  \<comment> \<open>the character class \<^verbatim>\<open>[2-9]\<close>, then the literals\<close>
  "rankAlternatives = map (\<lambda>d. [d]) ''23456789'' @ [''10'', ''J'', ''Q'', ''K'', ''A'']"

definition suitAlternatives :: "string list" where
  "suitAlternatives = [''SPADES'', ''HEARTS'', ''DIAMONDS'', ''CLUBS'']"

definition regexExec :: "string \<Rightarrow> (string \<times> string) option" where
  "regexExec code =
     (case [(r, s). r \<leftarrow> rankAlternatives, s \<leftarrow> suitAlternatives, code = r @ s] of
        [] \<Rightarrow> None
      | m # _ \<Rightarrow> Some m)"

definition rankMap :: "(string \<times> RankEnum) list" where
  "rankMap =
     [(''2'', R2), (''3'', R3), (''4'', R4), (''5'', R5), (''6'', R6), (''7'', R7),
      (''8'', R8), (''9'', R9), (''10'', R10), (''J'', J), (''Q'', Q), (''K'', K), (''A'', A)]"

definition suitMap :: "(string \<times> SuitEnum) list" where
  "suitMap =
     [(''SPADES'', SPADES), (''HEARTS'', HEARTS), (''DIAMONDS'', DIAMONDS), (''CLUBS'', CLUBS)]"

text \<open>
  The result is \<open>None\<close> for the source's \<^verbatim>\<open>null\<close>. Both table lookups are on
  keys the regular expression has just matched, so they are always defined; the last
  branch is there only to keep the function total.
\<close>

definition stringToCard :: "string \<Rightarrow> Card option" where
  "stringToCard code =
     (case regexExec code of
        None \<Rightarrow> None
      | Some (r, s) \<Rightarrow>
          (case (map_of rankMap r, map_of suitMap s) of
             (Some rk, Some su) \<Rightarrow> Some \<lparr>rank = rk, suit = su\<rparr>
           | _ \<Rightarrow> None))"

section \<open>Numbers in message templates\<close>

text \<open>
  Chip amounts are JavaScript numbers that only ever hold integers (stacks start at 1000,
  blinds are 10 and 20, and every transfer is a sum, difference, minimum or floor of
  such values); they are modelled as \<open>int\<close>. \<open>numberToString\<close> is the decimal text
  that a template literal produces for such a number.
\<close>

fun natToString :: "nat \<Rightarrow> string" where
  "natToString n =
     (if n < 10 then [char_of (48 + n)]
      else natToString (n div 10) @ [char_of (48 + n mod 10)])"

declare natToString.simps [simp del]

definition numberToString :: "int \<Rightarrow> string" where
  "numberToString i = (if i < 0 then ''-'' @ natToString (nat (- i)) else natToString (nat i))"

section \<open>Players, actions and the game state (common/interface.ts)\<close>

text \<open>
  Field names are the source's. \<^verbatim>\<open>Player.id\<close> is \<open>id_player\<close> because \<open>id\<close> is the
  identity function of HOL; where two interfaces share a field name the later record
  carries a suffix.
\<close>

record Player =
  id_player :: string
  name :: string
  hand :: "Card list"
  chips :: int
  currentBet :: int
  totalBet :: int
  isFolded :: bool
  role :: PlayerRoleEnum
  hasActed :: bool
  isAllIn :: bool

text \<open>
  The source holds players as shared mutable objects. Every player object that the
  engine touches is an element of \<^verbatim>\<open>gameState.players\<close>, so a reference to a
  player is modelled as its index in that list, and a mutation through the reference
  as a list update at that index. \<open>winners\<close> and \<open>tournamentWinner\<close> are such
  references; \<open>None\<close> is the source's \<^verbatim>\<open>undefined\<close>/\<^verbatim>\<open>null\<close>, and an
  absent \<^verbatim>\<open>gameEnded\<close> is \<open>False\<close>.
\<close>

record GameState =
  players :: "Player list"
  deck :: "Card list"
  pot :: int
  communityCards :: "Card list"
  currentPlayerIndex :: nat
  round :: RoundEnum
  bigBlind :: int
  smallBlind :: int
  minBet :: int
  lastRaise :: int
  message :: string
  winners :: "nat list"
  tournamentWinner :: "nat option"
  gameEnded :: bool

record Action =
  playerId :: string
  type_action :: PlayerActionEnum
  amount_action :: "int option"

record ActionValidation =
  isValid :: bool
  reason :: "string option"
  allowedActions :: "PlayerActionEnum list"
  minRaise :: "int option"
  callAmount :: "int option"

text \<open>\<^verbatim>\<open>Array.prototype.findIndex\<close>; \<open>None\<close> is the source's \<open>-1\<close>.\<close>

fun findIndex :: "('a \<Rightarrow> bool) \<Rightarrow> 'a list \<Rightarrow> nat option" where
  "findIndex P [] = None"
| "findIndex P (x # xs) =
     (if P x then Some 0 else map_option Suc (findIndex P xs))"

text \<open>
  \<^verbatim>\<open>gameState.players.find((p) => p.id === playerId)\<close>: a reference to the first
  player with that id, or \<open>None\<close> for \<^verbatim>\<open>undefined\<close>.
\<close>

definition findPlayer :: "GameState \<Rightarrow> string \<Rightarrow> nat option" where
  "findPlayer gameState pid = findIndex (\<lambda>p. id_player p = pid) (players gameState)"

text \<open>A mutation of the player object behind reference \<open>i\<close>.\<close>

definition updatePlayer :: "nat \<Rightarrow> (Player \<Rightarrow> Player) \<Rightarrow> GameState \<Rightarrow> GameState" where
  "updatePlayer i f gameState =
     gameState\<lparr>players := (players gameState)[i := f (players gameState ! i)]\<rparr>"

section \<open>Player actions (lib/PlayerActions.ts)\<close>

subsection \<open>Helper methods\<close>

definition getHighestCurrentBet :: "GameState \<Rightarrow> int" where
  "getHighestCurrentBet gameState =
     fold max (map (\<lambda>p. if isFolded p then 0 else currentBet p) (players gameState)) 0"

definition getMinimumRaise :: "GameState \<Rightarrow> int" where
  "getMinimumRaise gameState = getHighestCurrentBet gameState + lastRaise gameState"

definition getAllowedActions :: "GameState \<Rightarrow> Player \<Rightarrow> PlayerActionEnum list" where
  "getAllowedActions gameState player =
     (if role player = VIEWER then []
      else if isAllIn player then [Fold, Check]
      else if chips player = 0 then [Fold]
      else
        (let highestBet = getHighestCurrentBet gameState;
             callAmount = max 0 (highestBet - currentBet player);
             minRaise = getMinimumRaise gameState
         in [Fold] @ (if callAmount = 0 then [Check] else [Call]) @ [AllIn]
            @ (if chips player + currentBet player \<ge> minRaise then [Raise] else [])))"

subsection \<open>Action validators\<close>

definition validateFold :: "PlayerActionEnum list \<Rightarrow> int \<Rightarrow> int \<Rightarrow> ActionValidation" where
  "validateFold allowed callAmt minR =
     \<lparr>isValid = (Fold \<in> set allowed), reason = None, allowedActions = allowed,
      minRaise = Some minR, callAmount = Some callAmt\<rparr>"

definition validateCheck :: "int \<Rightarrow> PlayerActionEnum list \<Rightarrow> int \<Rightarrow> ActionValidation" where
  "validateCheck callAmt allowed minR =
     (if callAmt > 0 then
        \<lparr>isValid = False, reason = Some ''Cannot check when there's a bet to call'',
         allowedActions = allowed, minRaise = Some minR, callAmount = Some callAmt\<rparr>
      else
        \<lparr>isValid = (Check \<in> set allowed), reason = None, allowedActions = allowed,
         minRaise = Some minR, callAmount = Some callAmt\<rparr>)"

definition validateCall :: "int \<Rightarrow> PlayerActionEnum list \<Rightarrow> int \<Rightarrow> ActionValidation" where
  "validateCall callAmt allowed minR =
     (if callAmt = 0 then
        \<lparr>isValid = False, reason = Some ''No bet to call'',
         allowedActions = allowed, minRaise = Some minR, callAmount = Some callAmt\<rparr>
      else
        \<lparr>isValid = (Call \<in> set allowed), reason = None, allowedActions = allowed,
         minRaise = Some minR, callAmount = Some callAmt\<rparr>)"

text \<open>
  \<^verbatim>\<open>!action.amount\<close> holds when the amount is absent or zero (an integer amount is never
  \<^verbatim>\<open>NaN\<close>).
\<close>

definition amountMissing :: "Action \<Rightarrow> bool" where
  "amountMissing action = (case amount_action action of None \<Rightarrow> True | Some v \<Rightarrow> v = 0)"

definition validateRaise ::
  "Action \<Rightarrow> Player \<Rightarrow> PlayerActionEnum list \<Rightarrow> int \<Rightarrow> int \<Rightarrow> ActionValidation" where
  "validateRaise action player allowed callAmt minR =
     (if Raise \<notin> set allowed then
        \<lparr>isValid = False, reason = Some ''Raising not allowed'',
         allowedActions = allowed, minRaise = Some minR, callAmount = Some callAmt\<rparr>
      else if amountMissing action \<or> the (amount_action action) < minR then
        \<lparr>isValid = False, reason = Some (''Raise must be at least '' @ numberToString minR),
         allowedActions = allowed, minRaise = Some minR, callAmount = Some callAmt\<rparr>
      else if the (amount_action action) > chips player + currentBet player then
        \<lparr>isValid = False, reason = Some ''Raise amount exceeds available chips'',
         allowedActions = allowed, minRaise = Some minR, callAmount = Some callAmt\<rparr>
      else
        \<lparr>isValid = True, reason = None,
         allowedActions = allowed, minRaise = Some minR, callAmount = Some callAmt\<rparr>)"

definition validateAllIn :: "PlayerActionEnum list \<Rightarrow> int \<Rightarrow> int \<Rightarrow> ActionValidation" where
  "validateAllIn allowed callAmt minR =
     \<lparr>isValid = (AllIn \<in> set allowed), reason = None, allowedActions = allowed,
      minRaise = Some minR, callAmount = Some callAmt\<rparr>"

text \<open>
  \<^verbatim>\<open>PlayerActions.validatePlayerAction\<close>. The \<^verbatim>\<open>default\<close> branch of the final
  \<^verbatim>\<open>switch\<close> is unreachable for the five members of \<open>PlayerActionEnum\<close>.
\<close>

definition validatePlayerAction :: "GameState \<Rightarrow> Action \<Rightarrow> ActionValidation" where
  "validatePlayerAction gameState action =
     (case findPlayer gameState (playerId action) of
        None \<Rightarrow>
          \<lparr>isValid = False, reason = Some ''Player not found'', allowedActions = [],
           minRaise = None, callAmount = None\<rparr>
      | Some i \<Rightarrow>
          (let player = players gameState ! i in
           if role player = VIEWER then
             \<lparr>isValid = False, reason = Some ''Viewers cannot perform game actions'',
              allowedActions = [], minRaise = None, callAmount = None\<rparr>
           else if isFolded player then
             \<lparr>isValid = False, reason = Some ''Player has already folded'',
              allowedActions = [], minRaise = None, callAmount = None\<rparr>
           else if isAllIn player then
             (case type_action action of
                Fold \<Rightarrow>
                  \<lparr>isValid = True, reason = None, allowedActions = [Fold, Check],
                   minRaise = Some 0, callAmount = Some 0\<rparr>
              | Check \<Rightarrow>
                  \<lparr>isValid = True, reason = None, allowedActions = [Fold, Check],
                   minRaise = Some 0, callAmount = Some 0\<rparr>
              | _ \<Rightarrow>
                  \<lparr>isValid = False, reason = Some ''All-in players can only fold or check'',
                   allowedActions = [Fold, Check], minRaise = None, callAmount = None\<rparr>)
           else if chips player = 0 then
             \<lparr>isValid = False, reason = Some ''Player has no chips'',
              allowedActions = [], minRaise = None, callAmount = None\<rparr>
           else
             (let highestBet = getHighestCurrentBet gameState;
                  callAmt = max 0 (highestBet - currentBet player);
                  minR = getMinimumRaise gameState;
                  allowed = getAllowedActions gameState player
              in case type_action action of
                   Fold \<Rightarrow> validateFold allowed callAmt minR
                 | Check \<Rightarrow> validateCheck callAmt allowed minR
                 | Call \<Rightarrow> validateCall callAmt allowed minR
                 | Raise \<Rightarrow> validateRaise action player allowed callAmt minR
                 | AllIn \<Rightarrow> validateAllIn allowed callAmt minR)))"

subsection \<open>Action processors\<close>

text \<open>
  Each processor takes the state and the reference \<open>i\<close> of the acting player and
  returns the state after the source's in-place mutations.
\<close>

definition processFold :: "GameState \<Rightarrow> nat \<Rightarrow> GameState" where
  "processFold gameState i =
     (let player = players gameState ! i in
      (updatePlayer i (\<lambda>p. p\<lparr>isFolded := True, hasActed := True\<rparr>) gameState)
        \<lparr>message := name player @ '' folds''\<rparr>)"

definition processCheck :: "GameState \<Rightarrow> nat \<Rightarrow> GameState" where
  "processCheck gameState i =
     (let player = players gameState ! i in
      (updatePlayer i (\<lambda>p. p\<lparr>hasActed := True\<rparr>) gameState)
        \<lparr>message := name player @ '' checks''\<rparr>)"

definition processCall :: "GameState \<Rightarrow> nat \<Rightarrow> GameState" where
  "processCall gameState i =
     (let player = players gameState ! i;
          highestBet = getHighestCurrentBet gameState;
          callAmt = max 0 (highestBet - currentBet player);
          actualCall = min callAmt (chips player);
          g1 = (updatePlayer i
                 (\<lambda>p. p\<lparr>chips := chips p - actualCall,
                         currentBet := currentBet p + actualCall,
                         totalBet := totalBet p + actualCall,
                         hasActed := True\<rparr>) gameState)
                 \<lparr>pot := pot gameState + actualCall\<rparr>
      in if chips (players g1 ! i) = 0 then
           (updatePlayer i (\<lambda>p. p\<lparr>isAllIn := True\<rparr>) g1)
             \<lparr>message := name player @ '' calls and is all-in''\<rparr>
         else g1\<lparr>message := name player @ '' calls '' @ numberToString actualCall\<rparr>)"

text \<open>
  The \<^verbatim>\<open>forEach\<close> of \<^verbatim>\<open>processRaise\<close> and \<^verbatim>\<open>processAllIn\<close> that reopens the
  action: every player whose id differs from the actor's and who is neither folded nor
  all-in gets \<^verbatim>\<open>hasActed = false\<close>.
\<close>

definition reopenAction :: "string \<Rightarrow> Player list \<Rightarrow> Player list" where
  "reopenAction pid ps =
     map (\<lambda>p. if id_player p \<noteq> pid \<and> \<not> isFolded p \<and> \<not> isAllIn p
               then p\<lparr>hasActed := False\<rparr> else p) ps"

definition processRaise :: "GameState \<Rightarrow> nat \<Rightarrow> Action \<Rightarrow> GameState" where
  "processRaise gameState i action =
     (if amountMissing action then gameState
      else
        (let player = players gameState ! i;
             highestBet = getHighestCurrentBet gameState;
             raiseTotal = min (the (amount_action action)) (chips player + currentBet player);
             actualRaise = raiseTotal - currentBet player;
             g1 = (updatePlayer i
                    (\<lambda>p. p\<lparr>chips := chips p - actualRaise,
                            currentBet := raiseTotal,
                            totalBet := totalBet p + actualRaise,
                            hasActed := True\<rparr>) gameState)
                    \<lparr>pot := pot gameState + actualRaise,
                     lastRaise := raiseTotal - highestBet,
                     minBet := raiseTotal\<rparr>;
             g2 = g1\<lparr>players := reopenAction (id_player player) (players g1)\<rparr>
         in if chips (players g2 ! i) = 0 then
              (updatePlayer i (\<lambda>p. p\<lparr>isAllIn := True\<rparr>) g2)
                \<lparr>message := name player @ '' raises to '' @ numberToString raiseTotal
                              @ '' and is all-in''\<rparr>
            else g2\<lparr>message := name player @ '' raises to '' @ numberToString raiseTotal\<rparr>))"

definition processAllIn :: "GameState \<Rightarrow> nat \<Rightarrow> GameState" where
  "processAllIn gameState i =
     (let player = players gameState ! i;
          highestBet = getHighestCurrentBet gameState;
          allInAmount = chips player;
          g1 = (updatePlayer i
                 (\<lambda>p. p\<lparr>chips := 0,
                         currentBet := currentBet p + allInAmount,
                         totalBet := totalBet p + allInAmount,
                         isAllIn := True,
                         hasActed := True\<rparr>) gameState)
                 \<lparr>pot := pot gameState + allInAmount\<rparr>;
          g2 = (if currentBet (players g1 ! i) > highestBet then
                  g1\<lparr>lastRaise := currentBet (players g1 ! i) - highestBet,
                     minBet := currentBet (players g1 ! i),
                     players := reopenAction (id_player player) (players g1)\<rparr>
                else g1)
      in g2\<lparr>message := name player @ '' goes all-in with '' @ numberToString allInAmount\<rparr>)"

definition processValidatedAction :: "GameState \<Rightarrow> Action \<Rightarrow> GameState" where
  "processValidatedAction gameState action =
     (case findPlayer gameState (playerId action) of
        None \<Rightarrow> gameState
      | Some i \<Rightarrow>
          (case type_action action of
             Fold \<Rightarrow> processFold gameState i
           | Check \<Rightarrow> processCheck gameState i
           | Call \<Rightarrow> processCall gameState i
           | Raise \<Rightarrow> processRaise gameState i action
           | AllIn \<Rightarrow> processAllIn gameState i))"

section \<open>Errors\<close>

text \<open>
  Every \<^verbatim>\<open>throw\<close> of the modelled code is a value of \<open>error\<close>; \<open>TypeError\<close> is the
  exception that the JavaScript runtime raises on a property read of \<^verbatim>\<open>undefined\<close>
  or \<^verbatim>\<open>null\<close>. A function that can throw returns \<open>error + 'a\<close>.
\<close>

datatype error =
  INVALID_PLAYER_COUNT
  | EmptyDeck
  | BETTING_NOT_COMPLETE
  | CannotAdvanceFromRound RoundEnum
  | NEED_AT_LEAST_FIVE_CARDS
  | TooManyCards nat
  | DUPLICATE_CARD
  | COMMUNITY_CARDS_INVALID_COUNT
  | NO_SHOWDOWN_PLAYERS
  | NotTwoHoleCards string
  | PLAYER_EXACTLY_TWO_CARDS
  | COMMUNITY_CARDS_3_TO_5
  | TypeError

section \<open>The deck (lib/Deck.ts)\<close>

text \<open>
  \<^verbatim>\<open>ALL_CARDS\<close>: for every suit in declaration order, every rank in declaration order.
\<close>

definition allSuits :: "SuitEnum list" where
  "allSuits = [SPADES, HEARTS, DIAMONDS, CLUBS]"

definition allRanks :: "RankEnum list" where
  "allRanks = [R2, R3, R4, R5, R6, R7, R8, R9, R10, J, Q, K, A]"

definition ALL_CARDS :: "Card list" where
  "ALL_CARDS = concat (map (\<lambda>s. map (\<lambda>r. \<lparr>rank = r, suit = s\<rparr>) allRanks) allSuits)"

text \<open>
  A \<^verbatim>\<open>Deck\<close> is its list of remaining cards. \<^verbatim>\<open>shuffle\<close> draws from
  \<^verbatim>\<open>Math.random\<close>; its outcome, some arrangement of the 52 cards, is an argument of
  every function that shuffles.
\<close>

definition dealOne :: "Card list \<Rightarrow> error + (Card \<times> Card list)" where
  "dealOne cards = (case cards of [] \<Rightarrow> Inl EmptyDeck | c # rest \<Rightarrow> Inr (c, rest))"

text \<open>
  One pass of the inner loop of \<^verbatim>\<open>dealToPlayers\<close> over the players \<open>refs\<close>: a player
  with fewer than two cards receives the next card of the deck.
\<close>

fun dealRound :: "nat list \<Rightarrow> Player list \<Rightarrow> Card list \<Rightarrow> error + (Player list \<times> Card list)" where
  "dealRound [] ps cards = Inr (ps, cards)"
| "dealRound (i # refs) ps cards =
     (if length (hand (ps ! i)) < 2 then
        (case dealOne cards of
           Inl e \<Rightarrow> Inl e
         | Inr (c, rest) \<Rightarrow> dealRound refs (ps[i := (ps ! i)\<lparr>hand := hand (ps ! i) @ [c]\<rparr>]) rest)
      else dealRound refs ps cards)"

definition dealToPlayers :: "nat list \<Rightarrow> Player list \<Rightarrow> Card list \<Rightarrow> error + (Player list \<times> Card list)" where
  "dealToPlayers refs ps cards =
     (if refs = [] then Inr (ps, cards)
      else case dealRound refs ps cards of
             Inl e \<Rightarrow> Inl e
           | Inr (ps1, cards1) \<Rightarrow> dealRound refs ps1 cards1)"

section \<open>The engine: players in the hand, button and first actor (lib/GameEngine.ts)\<close>

text \<open>\<^verbatim>\<open>players.filter(pred)\<close> as the list of references to the players kept.\<close>

definition filterPlayers :: "(Player \<Rightarrow> bool) \<Rightarrow> Player list \<Rightarrow> nat list" where
  "filterPlayers pred ps = filter (\<lambda>i. pred (ps ! i)) [0..<length ps]"

definition getActivePlayers :: "GameState \<Rightarrow> nat list" where
  "getActivePlayers gameState =
     filterPlayers (\<lambda>p. \<not> isFolded p \<and> (chips p > 0 \<or> isAllIn p) \<and> role p \<noteq> VIEWER)
       (players gameState)"

definition getPlayersInUIAction :: "GameState \<Rightarrow> nat list" where
  "getPlayersInUIAction gameState =
     filterPlayers (\<lambda>p. \<not> isFolded p \<and> role p \<noteq> VIEWER) (players gameState)"

definition setRole :: "nat \<Rightarrow> PlayerRoleEnum \<Rightarrow> Player list \<Rightarrow> Player list" where
  "setRole i r ps = ps[i := (ps ! i)\<lparr>role := r\<rparr>]"

definition rotateDealerButton :: "GameState \<Rightarrow> GameState" where
  "rotateDealerButton gameState =
     (let ps = players gameState;
          activePlayers = filterPlayers (\<lambda>p. role p \<noteq> VIEWER) ps;
          activeCount = length activePlayers
      in if activeCount < 2 then gameState
         else
           (let found = findIndex (\<lambda>i. role (ps ! i) = DEALER) activePlayers;
                dealerIndex0 = (case found of None \<Rightarrow> 0 | Some d \<Rightarrow> d);
                dealerIndex = (dealerIndex0 + 1) mod activeCount;
                cleared = map (\<lambda>p. if role p \<noteq> VIEWER then p\<lparr>role := NO_ROLE\<rparr> else p) ps;
                withDealer = setRole (activePlayers ! dealerIndex) DEALER cleared
            in if activeCount = 2 then
                 gameState\<lparr>players :=
                   setRole (activePlayers ! ((dealerIndex + 1) mod activeCount)) BIG_BLIND
                     withDealer\<rparr>
               else
                 gameState\<lparr>players :=
                   setRole (activePlayers ! ((dealerIndex + 2) mod activeCount)) BIG_BLIND
                     (setRole (activePlayers ! ((dealerIndex + 1) mod activeCount)) SMALL_BLIND
                        withDealer)\<rparr>))"

definition setPREFLOPFirstPlayer :: "GameState \<Rightarrow> GameState" where
  "setPREFLOPFirstPlayer gameState =
     (case findIndex (\<lambda>p. role p = BIG_BLIND) (players gameState) of
        None \<Rightarrow> gameState
      | Some bigBlindIndex \<Rightarrow>
          gameState\<lparr>currentPlayerIndex := (bigBlindIndex + 1) mod length (players gameState)\<rparr>)"

section \<open>The orchestrator (lib/PokerGame.ts)\<close>

record PokerGame =
  gameState :: GameState
  handNumber :: nat

text \<open>
  \<^verbatim>\<open>initializePlayers\<close> followed by the \<^verbatim>\<open>map\<close> of \<^verbatim>\<open>initializeGame\<close>, which
  assigns the same values again.
\<close>

definition initialRole :: "nat \<Rightarrow> nat \<Rightarrow> PlayerRoleEnum" where
  "initialRole n idx =
     (if n = 2 then (if idx = 0 then DEALER else BIG_BLIND)
      else if idx = 0 then DEALER
      else if idx = 1 then SMALL_BLIND
      else if idx = 2 then BIG_BLIND
      else NO_ROLE)"

definition initializePlayers :: "string list \<Rightarrow> Player list" where
  "initializePlayers names =
     map (\<lambda>(idx, n).
            \<lparr>id_player = natToString idx, name = n, hand = [], chips = 1000, currentBet = 0,
             totalBet = 0, isFolded = False, role = initialRole (length names) idx,
             hasActed = False, isAllIn = False\<rparr>)
         (enumerate 0 names)"

definition initializeGame :: "Player list \<Rightarrow> Card list \<Rightarrow> GameState" where
  "initializeGame ps shuffled =
     \<lparr>players =
        map (\<lambda>(idx, p).
               p\<lparr>chips := 1000, currentBet := 0, totalBet := 0, isFolded := False,
                 isAllIn := False, hasActed := False, hand := [],
                 role := initialRole (length ps) idx\<rparr>)
            (enumerate 0 ps),
      deck = shuffled, pot = 0, communityCards = [], currentPlayerIndex = 0,
      round = PREFLOP, bigBlind = 20, smallBlind = 10, minBet = 20, lastRaise = 20,
      message = ''Game initialized. Ready to start a new hand.'',
      winners = [], tournamentWinner = None, gameEnded = False\<rparr>"

text \<open>The constructor; \<open>shuffled\<close> is the outcome of the shuffle of the first deck.\<close>

definition newPokerGame :: "string list \<Rightarrow> Card list \<Rightarrow> error + PokerGame" where
  "newPokerGame playerNames shuffled =
     (if length playerNames < 2 \<or> length playerNames > 9 then Inl INVALID_PLAYER_COUNT
      else Inr \<lparr>gameState = initializeGame (initializePlayers playerNames) shuffled,
                handNumber = 0\<rparr>)"

definition hasTournamentWinner :: "GameState \<Rightarrow> bool" where
  "hasTournamentWinner g =
     (length (filter (\<lambda>p. chips p > 0) (filter (\<lambda>p. role p \<noteq> VIEWER) (players g))) = 1
      \<and> length (players g) \<ge> 2)"

definition getTournamentWinner :: "GameState \<Rightarrow> nat option" where
  "getTournamentWinner g =
     (if \<not> hasTournamentWinner g then None
      else findIndex (\<lambda>p. chips p > 0 \<and> role p \<noteq> VIEWER) (players g))"

text \<open>
  \<^verbatim>\<open>handlePlayerElimination\<close>: a player without chips becomes a viewer and is folded;
  the message changes only when somebody was eliminated.
\<close>

definition handlePlayerElimination :: "GameState \<Rightarrow> GameState" where
  "handlePlayerElimination g =
     (let eliminatedCount = length (filter (\<lambda>p. chips p = 0 \<and> role p \<noteq> VIEWER) (players g));
          g1 = g\<lparr>players :=
                    map (\<lambda>p. if chips p = 0 \<and> role p \<noteq> VIEWER
                              then p\<lparr>role := VIEWER, isFolded := True\<rparr> else p) (players g)\<rparr>
      in if eliminatedCount > 0 then
           g1\<lparr>message :=
                (if eliminatedCount = 1 then natToString eliminatedCount @ '' player eliminated''
                 else natToString eliminatedCount @ '' players eliminated'')\<rparr>
         else g1)"

definition setupNewHand :: "GameState \<Rightarrow> Card list \<Rightarrow> GameState" where
  "setupNewHand g shuffled =
     (let g1 = g\<lparr>pot := 0, communityCards := [], minBet := bigBlind g, lastRaise := bigBlind g,
                  deck := shuffled\<rparr>;
          g2 = handlePlayerElimination g1;
          g3 = g2\<lparr>players :=
                     map (\<lambda>p. p\<lparr>hand := [], currentBet := 0, totalBet := 0, isFolded := False,
                                 hasActed := False, isAllIn := False\<rparr>) (players g2)\<rparr>;
          g4 = rotateDealerButton g3
      in g4\<lparr>message := ''New hand started''\<rparr>)"

text \<open>
  Posting one blind: \<^verbatim>\<open>Math.min(player.chips, blind)\<close> moves from the stack to the
  bet and the pot, and a stack emptied by it is all-in.
\<close>

definition postBlind :: "nat \<Rightarrow> int \<Rightarrow> GameState \<Rightarrow> GameState" where
  "postBlind i blind g =
     (let amt = min (chips (players g ! i)) blind;
          g1 = (updatePlayer i
                 (\<lambda>p. p\<lparr>currentBet := amt, totalBet := amt, chips := chips p - amt\<rparr>) g)
                 \<lparr>pot := pot g + amt\<rparr>
      in if chips (players g1 ! i) = 0 then updatePlayer i (\<lambda>p. p\<lparr>isAllIn := True\<rparr>) g1
         else g1)"

text \<open>
  \<^verbatim>\<open>placeBlinds\<close>. Both players are looked up before either blind is posted, and
  \<^verbatim>\<open>isHeadsUp\<close> compares the length of the whole players list with 2.
\<close>

definition placeBlinds :: "GameState \<Rightarrow> GameState" where
  "placeBlinds g =
     (let isHeadsUp = (length (players g) = 2);
          smallBlindPlayer =
            findIndex (\<lambda>p. role p = SMALL_BLIND \<or> (isHeadsUp \<and> role p = DEALER)) (players g);
          bigBlindPlayer = findIndex (\<lambda>p. role p = BIG_BLIND) (players g);
          g1 = (case smallBlindPlayer of None \<Rightarrow> g | Some i \<Rightarrow> postBlind i (smallBlind g) g);
          g2 = (case bigBlindPlayer of None \<Rightarrow> g1 | Some i \<Rightarrow> postBlind i (bigBlind g1) g1)
      in g2\<lparr>message := ''Blinds posted''\<rparr>)"

definition dealHoleCards :: "GameState \<Rightarrow> Card list \<Rightarrow> error + GameState" where
  "dealHoleCards g cards =
     (let activePlayers =
            filterPlayers (\<lambda>p. (chips p > 0 \<or> totalBet p > 0) \<and> role p \<noteq> VIEWER) (players g)
      in case dealToPlayers activePlayers (players g) cards of
           Inl e \<Rightarrow> Inl e
         | Inr (ps, rest) \<Rightarrow>
             Inr (g\<lparr>players := ps, deck := rest, message := ''Hole cards dealt''\<rparr>))"

text \<open>
  The tournament message starts and ends with the trophy sign U+1F3C6, written here as
  its four UTF-8 bytes. \<^verbatim>\<open>winner?.name\<close> of an absent winner prints as
  \<^verbatim>\<open>undefined\<close>.
\<close>

definition trophy :: string where
  "trophy = [CHR 0xF0, CHR 0x9F, CHR 0x8F, CHR 0x86]"

definition startNewHand :: "PokerGame \<Rightarrow> Card list \<Rightarrow> error + PokerGame" where
  "startNewHand game shuffled =
     (let g = gameState game in
      if hasTournamentWinner g then
        (let winner = getTournamentWinner g;
             winnerName = (case winner of None \<Rightarrow> ''undefined'' | Some w \<Rightarrow> name (players g ! w))
         in Inr (game\<lparr>gameState :=
                   g\<lparr>tournamentWinner := winner, gameEnded := True,
                     message := trophy @ '' '' @ winnerName @ '' wins the tournament! ''
                                @ trophy\<rparr>\<rparr>))
      else
        (let g1 = g\<lparr>winners := []\<rparr>;
             g2 = setupNewHand g1 shuffled;
             g3 = placeBlinds g2
         in case dealHoleCards g3 shuffled of
              Inl e \<Rightarrow> Inl e
            | Inr g4 \<Rightarrow>
                Inr \<lparr>gameState = setPREFLOPFirstPlayer (g4\<lparr>round := PREFLOP\<rparr>),
                     handNumber = handNumber game + 1\<rparr>))"

text \<open>\<^verbatim>\<open>PokerGame.getActivePlayers\<close> filters the engine's list once more by role.\<close>

definition getActivePlayers_PokerGame :: "GameState \<Rightarrow> nat list" where
  "getActivePlayers_PokerGame g =
     filter (\<lambda>i. role (players g ! i) \<noteq> VIEWER) (getActivePlayers g)"

definition shouldHandEndEarly :: "GameState \<Rightarrow> bool" where
  "shouldHandEndEarly g = (length (getActivePlayers_PokerGame g) \<le> 1)"

text \<open>
  \<^verbatim>\<open>handleAutomaticWin\<close> returns the state after its mutations together with the
  winner and message, or \<open>None\<close> for \<^verbatim>\<open>null\<close>.
\<close>

definition handleAutomaticWin :: "GameState \<Rightarrow> GameState \<times> (nat \<times> string) option" where
  "handleAutomaticWin g =
     (let activePlayers = getActivePlayers_PokerGame g in
      if length activePlayers = 1 then
        (let winner = activePlayers ! 0;
             msg = name (players g ! winner) @ '' wins by default (all others folded)!''
         in (g\<lparr>round := SHOWDOWN, message := msg, winners := [winner]\<rparr>, Some (winner, msg)))
      else if length activePlayers = 0 then
        (g\<lparr>round := SHOWDOWN, message := ''Hand ended with no active players''\<rparr>, None)
      else (g, None))"

definition validatePlayerAction_PokerGame :: "GameState \<Rightarrow> Action \<Rightarrow> ActionValidation" where
  "validatePlayerAction_PokerGame g action =
     (if shouldHandEndEarly g then
        \<lparr>isValid = False,
         reason = Some ''Hand is already complete - only one player remains'',
         allowedActions = [], minRaise = None, callAmount = None\<rparr>
      else validatePlayerAction g action)"

record ActionResult =
  success :: bool
  message_result :: string
  gameState_result :: GameState

definition processAction :: "GameState \<Rightarrow> Action \<Rightarrow> ActionResult" where
  "processAction g action =
     (case handleAutomaticWin g of
        (g1, Some (w, msg)) \<Rightarrow> \<lparr>success = True, message_result = msg, gameState_result = g1\<rparr>
      | (g1, None) \<Rightarrow>
          (let validation = validatePlayerAction_PokerGame g1 action in
           if \<not> isValid validation then
             \<lparr>success = False,
              message_result = (case reason validation of
                                  Some r \<Rightarrow> (if r = [] then ''Invalid action'' else r)
                                | None \<Rightarrow> ''Invalid action''),
              gameState_result = g1\<rparr>
           else
             (let g2 = processValidatedAction g1 action in
              if type_action action = Fold then
                (case handleAutomaticWin g2 of
                   (g3, Some (w, msg)) \<Rightarrow>
                     \<lparr>success = True, message_result = msg, gameState_result = g3\<rparr>
                 | (g3, None) \<Rightarrow>
                     \<lparr>success = True, message_result = message g3, gameState_result = g3\<rparr>)
              else \<lparr>success = True, message_result = message g2, gameState_result = g2\<rparr>)))"

section \<open>Hand evaluation (lib/GameEngine.ts)\<close>

record EvaluatedHand =
  rank_hand :: HandRankEnum
  tiebreaker :: "int list"

text \<open>
  \<^verbatim>\<open>Array.prototype.sort(cmp)\<close> is stable: elements that compare equal keep their
  order. Insertion from the right computes that arrangement for every comparator used
  in the engine (each orders by an integer key, or by two of them).
\<close>

fun insertBy :: "('a \<Rightarrow> 'a \<Rightarrow> int) \<Rightarrow> 'a \<Rightarrow> 'a list \<Rightarrow> 'a list" where
  "insertBy cmp x [] = [x]"
| "insertBy cmp x (y # ys) = (if cmp x y \<le> 0 then x # y # ys else y # insertBy cmp x ys)"

definition sortBy :: "('a \<Rightarrow> 'a \<Rightarrow> int) \<Rightarrow> 'a list \<Rightarrow> 'a list" where
  "sortBy cmp xs = foldr (insertBy cmp) xs []"

fun rankToValue :: "RankEnum \<Rightarrow> int" where
  "rankToValue R2 = 2"
| "rankToValue R3 = 3"
| "rankToValue R4 = 4"
| "rankToValue R5 = 5"
| "rankToValue R6 = 6"
| "rankToValue R7 = 7"
| "rankToValue R8 = 8"
| "rankToValue R9 = 9"
| "rankToValue R10 = 10"
| "rankToValue J = 11"
| "rankToValue Q = 12"
| "rankToValue K = 13"
| "rankToValue A = 14"

text \<open>
  \<^verbatim>\<open>checkSTRAIGHT\<close>: \<open>u\<close> is the distinct ranks (a \<^verbatim>\<open>Set\<close> keeps the first
  occurrence of each) in descending order; the loop looks for a window of five whose
  ends differ by 4, then the wheel is tested.
\<close>

fun straightWindow :: "int list \<Rightarrow> int option" where
  "straightWindow (a # b # c # d # e # rest) =
     (if a - e = 4 then Some a else straightWindow (b # c # d # e # rest))"
| "straightWindow _ = None"

definition checkSTRAIGHT :: "int list \<Rightarrow> bool \<times> int" where
  "checkSTRAIGHT ranks =
     (let u = sortBy (\<lambda>a b. b - a) (rev (remdups (rev ranks))) in
      case straightWindow u of
        Some high \<Rightarrow> (True, high)
      | None \<Rightarrow> if list_all (\<lambda>x. x \<in> set u) [14, 5, 4, 3, 2] then (True, 5) else (False, 0))"

text \<open>
  The \<^verbatim>\<open>Map\<close> of rank counts keeps its keys in order of first insertion;
  \<open>countEntries\<close> is \<^verbatim>\<open>Array.from(counts.entries())\<close>.
\<close>

fun countInsert :: "int \<Rightarrow> (int \<times> nat) list \<Rightarrow> (int \<times> nat) list" where
  "countInsert v [] = [(v, 1)]"
| "countInsert v ((w, c) # rest) =
     (if v = w then (w, c + 1) # rest else (w, c) # countInsert v rest)"

definition countEntries :: "int list \<Rightarrow> (int \<times> nat) list" where
  "countEntries vs = fold countInsert vs []"

text \<open>
  \<^verbatim>\<open>evaluateFive\<close>. A read of \<^verbatim>\<open>grouped[0]\<close> or \<^verbatim>\<open>grouped[1]\<close> beyond the
  end of \<open>grouped\<close> is a \<open>TypeError\<close> in the source. The kicker of two pair is
  \<^verbatim>\<open>rankValues.find(...)!\<close>, which is \<^verbatim>\<open>undefined\<close> when there is none; the model
  then leaves the entry out. Neither happens for a list of five cards.
\<close>

definition allSameSuit :: "Card list \<Rightarrow> bool" where
  \<comment> \<open>\<^verbatim>\<open>suits.every((s) => s === suits[0])\<close>\<close>
  "allSameSuit cards =
     (let suits = map suit cards in
      case suits of [] \<Rightarrow> True | s0 # _ \<Rightarrow> list_all (\<lambda>s. s = s0) suits)"

definition evaluateFive :: "Card list \<Rightarrow> error + EvaluatedHand" where
  "evaluateFive cards =
     (let isFLUSH = allSameSuit cards;
          rankValues = sortBy (\<lambda>a b. b - a) (map (\<lambda>c. rankToValue (rank c)) cards);
          (isSTRAIGHT, STRAIGHTHigh) = checkSTRAIGHT rankValues;
          grouped = sortBy (\<lambda>a b. if int (snd b) - int (snd a) \<noteq> 0
                                   then int (snd b) - int (snd a) else fst b - fst a)
                      (countEntries rankValues)
      in if isSTRAIGHT \<and> isFLUSH then
           Inr \<lparr>rank_hand = (if STRAIGHTHigh = 14 then ROYALFLUSH else STRAIGHTFLUSH),
                tiebreaker = [STRAIGHTHigh]\<rparr>
         else
           (case grouped of
              [] \<Rightarrow> Inl TypeError
            | (v0, c0) # others \<Rightarrow>
                if c0 = 4 then
                  (case others of
                     [] \<Rightarrow> Inl TypeError
                   | (v1, c1) # _ \<Rightarrow> Inr \<lparr>rank_hand = FOUROFKIND, tiebreaker = [v0, v1]\<rparr>)
                else if c0 = 3 \<and> others = [] then Inl TypeError
                else if c0 = 3 \<and> snd (hd others) = 2 then
                  Inr \<lparr>rank_hand = FULLHOUSE, tiebreaker = [v0, fst (hd others)]\<rparr>
                else if isFLUSH then Inr \<lparr>rank_hand = FLUSH, tiebreaker = rankValues\<rparr>
                else if isSTRAIGHT then Inr \<lparr>rank_hand = STRAIGHT, tiebreaker = [STRAIGHTHigh]\<rparr>
                else if c0 = 3 then
                  Inr \<lparr>rank_hand = THREEOFAKIND,
                       tiebreaker = v0 # take 2 (filter (\<lambda>v. v \<noteq> v0) rankValues)\<rparr>
                else if c0 = 2 \<and> others = [] then Inl TypeError
                else if c0 = 2 \<and> snd (hd others) = 2 then
                  (let pairs = sortBy (\<lambda>a b. b - a) [v0, fst (hd others)];
                       highPair = pairs ! 0;
                       lowPair = pairs ! 1;
                       kicker = List.find (\<lambda>v. v \<noteq> highPair \<and> v \<noteq> lowPair) rankValues
                   in Inr \<lparr>rank_hand = TWOPAIR,
                           tiebreaker = [highPair, lowPair]
                                        @ (case kicker of None \<Rightarrow> [] | Some k \<Rightarrow> [k])\<rparr>)
                else if c0 = 2 then
                  Inr \<lparr>rank_hand = ONEPAIR,
                       tiebreaker = v0 # take 3 (filter (\<lambda>v. v \<noteq> v0) rankValues)\<rparr>
                else Inr \<lparr>rank_hand = HIGHCARD, tiebreaker = rankValues\<rparr>))"

text \<open>\<^verbatim>\<open>hierarchy.indexOf(rank)\<close> in \<^verbatim>\<open>compareHands\<close>.\<close>

fun hierarchyIndex :: "HandRankEnum \<Rightarrow> int" where
  "hierarchyIndex HIGHCARD = 0"
| "hierarchyIndex ONEPAIR = 1"
| "hierarchyIndex TWOPAIR = 2"
| "hierarchyIndex THREEOFAKIND = 3"
| "hierarchyIndex STRAIGHT = 4"
| "hierarchyIndex FLUSH = 5"
| "hierarchyIndex FULLHOUSE = 6"
| "hierarchyIndex FOUROFKIND = 7"
| "hierarchyIndex STRAIGHTFLUSH = 8"
| "hierarchyIndex ROYALFLUSH = 9"

text \<open>
  The result of \<^verbatim>\<open>compareHands\<close> is a number; \<open>None\<close> is \<^verbatim>\<open>NaN\<close>, which the loop
  returns when \<open>b\<close>'s tiebreaker ends before a difference is found
  (\<^verbatim>\<open>a.tiebreaker[i] - undefined\<close>). \<^verbatim>\<open>NaN > 0\<close> and \<^verbatim>\<open>NaN === 0\<close> are both false.
\<close>

fun compareTiebreakers :: "int list \<Rightarrow> int list \<Rightarrow> int option" where
  "compareTiebreakers [] bs = Some 0"
| "compareTiebreakers (x # xs) [] = None"
| "compareTiebreakers (x # xs) (y # ys) =
     (if x \<noteq> y then Some (x - y) else compareTiebreakers xs ys)"

definition compareHands :: "EvaluatedHand \<Rightarrow> EvaluatedHand \<Rightarrow> int option" where
  "compareHands a b =
     (let diff = hierarchyIndex (rank_hand a) - hierarchyIndex (rank_hand b) in
      if diff \<noteq> 0 then Some diff else compareTiebreakers (tiebreaker a) (tiebreaker b))"

definition isPositive :: "int option \<Rightarrow> bool" where
  "isPositive r = (case r of None \<Rightarrow> False | Some d \<Rightarrow> d > 0)"

definition isZero :: "int option \<Rightarrow> bool" where
  "isZero r = (case r of None \<Rightarrow> False | Some d \<Rightarrow> d = 0)"

fun getCombinations :: "'a list \<Rightarrow> nat \<Rightarrow> 'a list list" where
  "getCombinations arr 0 = [[]]"
| "getCombinations [] (Suc k) = []"
| "getCombinations (first # rest) (Suc k) =
     (if length (first # rest) < Suc k then []
      else getCombinations rest (Suc k) @ map ((#) first) (getCombinations rest k))"

text \<open>
  The loop of \<^verbatim>\<open>evaluateBestHand\<close> over the combinations, with \<open>best\<close> starting as
  \<^verbatim>\<open>null\<close>.
\<close>

fun bestOfCombinations :: "Card list list \<Rightarrow> EvaluatedHand option \<Rightarrow> error + EvaluatedHand option" where
  "bestOfCombinations [] best = Inr best"
| "bestOfCombinations (combo # combos) best =
     (case evaluateFive combo of
        Inl err \<Rightarrow> Inl err
      | Inr e \<Rightarrow>
          (case best of
             None \<Rightarrow> bestOfCombinations combos (Some e)
           | Some b \<Rightarrow>
               if isPositive (compareHands e b) then bestOfCombinations combos (Some e)
               else bestOfCombinations combos (Some b)))"

text \<open>
  \<^verbatim>\<open>evaluateBestHand\<close>. Two cards have the same key \<^verbatim>\<open>`${c.rank}-${c.suit}`\<close>
  exactly when they are equal, so the duplicate test is \<open>distinct\<close>. With five cards or
  more there is a combination, so \<open>best\<close> is set when the loop ends; the \<open>None\<close> branch
  stands for the \<^verbatim>\<open>null\<close> that \<^verbatim>\<open>best!\<close> would otherwise hand to the caller.
\<close>

definition evaluateBestHand :: "Card list \<Rightarrow> error + EvaluatedHand" where
  "evaluateBestHand cards =
     (if length cards < 5 then Inl NEED_AT_LEAST_FIVE_CARDS
      else if length cards > 7 then Inl (TooManyCards (length cards))
      else if \<not> distinct cards then Inl DUPLICATE_CARD
      else case bestOfCombinations (getCombinations cards 5) None of
             Inl err \<Rightarrow> Inl err
           | Inr None \<Rightarrow> Inl TypeError
           | Inr (Some best) \<Rightarrow> Inr best)"




section \<open>Pots (lib/GameEngine.ts)\<close>

record Pot =
  id_pot :: string
  amount :: int
  eligiblePlayers :: "nat list"
  isMainPot :: bool
  maxContribution :: int










section \<open>The equity simulator (lib/MonteCarloSimulation.ts)\<close>

text \<open>
  The rates of a \<^verbatim>\<open>PredictionResult\<close> are the floating-point quotients
  \<^verbatim>\<open>(count / SIMULATION_COUNT) * 100\<close>; the model keeps the counts they are computed
  from. A hand-strength list holds, for every category that occurred, its count, in
  descending order of the count (the source orders by the percentage, which grows with
  the count).
\<close>

record PredictionResult =
  wins :: nat
  ties :: nat
  losses :: nat
  handStrengths :: "(HandRankEnum \<times> nat) list"
  opponentHandStrengths :: "(HandRankEnum \<times> nat) list"
  totalSimulations :: nat

definition SIMULATION_COUNT :: nat where
  "SIMULATION_COUNT = 10000"

text \<open>
  \<^verbatim>\<open>createCacheKey\<close>. \<^verbatim>\<open>sort()\<close> without a comparator orders strings by their code
  units, which is the lexicographic order of \<open>string\<close>.
\<close>

definition createCacheKey :: "Card list \<Rightarrow> Card list \<Rightarrow> int \<Rightarrow> string" where
  "createCacheKey playerCards community numOpponents =
     concat (sort (map cardToString playerCards)) @ ''-''
     @ concat (sort (map cardToString community)) @ ''-''
     @ numberToString numOpponents"

text \<open>\<^verbatim>\<open>array[i]\<close>: \<open>None\<close> is the \<^verbatim>\<open>undefined\<close> of a read past the end.\<close>

definition nthU :: "'a list \<Rightarrow> nat \<Rightarrow> 'a option" where
  "nthU xs i = (if i < length xs then Some (xs ! i) else None)"

text \<open>
  The \<^verbatim>\<open>while\<close> loop that completes the community cards from the shuffled cards; it
  returns the cards and the next \<^verbatim>\<open>cardIndex\<close>.
\<close>

function completeCommunity ::
  "Card list \<Rightarrow> Card option list \<Rightarrow> nat \<Rightarrow> Card option list \<times> nat" where
  "completeCommunity shuffledCards finalCommunityCards cardIndex =
     (if length finalCommunityCards < 5 then
        completeCommunity shuffledCards
          (finalCommunityCards @ [nthU shuffledCards cardIndex]) (cardIndex + 1)
      else (finalCommunityCards, cardIndex))"
  by pat_completeness auto
termination
  by (relation "measure (\<lambda>(sh, final, idx). 5 - length final)") auto

declare completeCommunity.simps [simp del]

text \<open>
  The \<^verbatim>\<open>for\<close> loop that deals two cards to each opponent; \<open>m\<close> is the number of
  iterations that are left.
\<close>

fun dealOpponents :: "Card list \<Rightarrow> nat \<Rightarrow> nat \<Rightarrow> Card option list list" where
  "dealOpponents shuffledCards cardIndex 0 = []"
| "dealOpponents shuffledCards cardIndex (Suc m) =
     [nthU shuffledCards cardIndex, nthU shuffledCards (cardIndex + 1)]
     # dealOpponents shuffledCards (cardIndex + 2) m"

text \<open>
  \<^verbatim>\<open>evaluateBestHand\<close> called on an array that may hold \<^verbatim>\<open>undefined\<close>: the length
  tests come first, then the duplicate scan reads \<^verbatim>\<open>c.rank\<close> of each element in
  order, which is a \<open>TypeError\<close> at the first \<^verbatim>\<open>undefined\<close> unless a duplicate was
  met before it.
\<close>

fun duplicateScan :: "Card option list \<Rightarrow> Card list \<Rightarrow> error option" where
  "duplicateScan [] seen = None"
| "duplicateScan (None # rest) seen = Some TypeError"
| "duplicateScan (Some c # rest) seen =
     (if c \<in> set seen then Some DUPLICATE_CARD else duplicateScan rest (c # seen))"

definition evaluateBestHandU :: "Card option list \<Rightarrow> error + EvaluatedHand" where
  "evaluateBestHandU cards =
     (if length cards < 5 then Inl NEED_AT_LEAST_FIVE_CARDS
      else if length cards > 7 then Inl (TooManyCards (length cards))
      else case duplicateScan cards [] of
             Some err \<Rightarrow> Inl err
           | None \<Rightarrow> evaluateBestHand (map the cards))"

fun evaluateOpponents ::
  "Card option list list \<Rightarrow> Card option list \<Rightarrow> error + EvaluatedHand list" where
  "evaluateOpponents [] finalCommunityCards = Inr []"
| "evaluateOpponents (opponentCards # rest) finalCommunityCards =
     (case evaluateBestHandU (opponentCards @ finalCommunityCards) of
        Inl err \<Rightarrow> Inl err
      | Inr e \<Rightarrow>
          (case evaluateOpponents rest finalCommunityCards of
             Inl err \<Rightarrow> Inl err
           | Inr es \<Rightarrow> Inr (e # es)))"

fun bestOpponent :: "EvaluatedHand \<Rightarrow> EvaluatedHand list \<Rightarrow> EvaluatedHand" where
  "bestOpponent best [] = best"
| "bestOpponent best (e # es) =
     (if isPositive (compareHands e best) then bestOpponent e es else bestOpponent best es)"

record SimulationOutcome =
  playerWins :: bool
  isTie :: bool
  playerHand :: EvaluatedHand
  bestOpponentHand :: EvaluatedHand

text \<open>
  \<^verbatim>\<open>runSingleSimulation\<close>. \<^verbatim>\<open>shuffleArray\<close> draws from \<^verbatim>\<open>Math.random\<close>; the
  rearrangement it makes in this trial is the argument \<open>shuffleArray\<close>, and
  \<open>shuffledCards\<close> is the copy of the available cards after it. The loop over the opponents
  runs \<open>nat numOpponents\<close> times. Without an opponent \<^verbatim>\<open>opponentEvaluations[0]\<close> is
  \<^verbatim>\<open>undefined\<close> and \<^verbatim>\<open>compareHands\<close> throws on reading its \<^verbatim>\<open>rank\<close>.
\<close>

definition runSingleSimulation ::
  "(Card list \<Rightarrow> Card list) \<Rightarrow> Card list \<Rightarrow> Card list \<Rightarrow> Card list \<Rightarrow> int
   \<Rightarrow> error + SimulationOutcome" where
  "runSingleSimulation shuffleArray playerCards community available numOpponents =
     (let shuffledCards = shuffleArray available;
          (finalCommunityCards, cardIndex) =
            completeCommunity shuffledCards (map Some community) 0;
          opponentHands = dealOpponents shuffledCards cardIndex (nat numOpponents)
      in case evaluateBestHandU (map Some playerCards @ finalCommunityCards) of
           Inl err \<Rightarrow> Inl err
         | Inr pHand \<Rightarrow>
             (case evaluateOpponents opponentHands finalCommunityCards of
                Inl err \<Rightarrow> Inl err
              | Inr [] \<Rightarrow> Inl TypeError
              | Inr (e0 # es) \<Rightarrow>
                  (let best = bestOpponent e0 es;
                       comparison = compareHands pHand best
                   in Inr \<lparr>playerWins = isPositive comparison, isTie = isZero comparison,
                           playerHand = pHand, bestOpponentHand = best\<rparr>)))"

text \<open>
  The tallies of \<^verbatim>\<open>runSimulationSync\<close> and its loop over the trials; \<open>shuffleOf i\<close> is
  the rearrangement that \<^verbatim>\<open>shuffleArray\<close> makes in trial \<open>i\<close>.
\<close>

record Tally =
  winsT :: nat
  tiesT :: nat
  lossesT :: nat
  playerHandStrengths :: "HandRankEnum \<Rightarrow> nat"
  opponentStrengths :: "HandRankEnum \<Rightarrow> nat"

definition tallyOutcome :: "Tally \<Rightarrow> SimulationOutcome \<Rightarrow> Tally" where
  "tallyOutcome t r =
     (let t1 = (if playerWins r then t\<lparr>winsT := winsT t + 1\<rparr>
                else if isTie r then t\<lparr>tiesT := tiesT t + 1\<rparr>
                else t\<lparr>lossesT := lossesT t + 1\<rparr>)
      in t1\<lparr>playerHandStrengths :=
               (playerHandStrengths t1)
                 (rank_hand (playerHand r) := playerHandStrengths t1 (rank_hand (playerHand r)) + 1),
             opponentStrengths :=
               (opponentStrengths t1)
                 (rank_hand (bestOpponentHand r) :=
                    opponentStrengths t1 (rank_hand (bestOpponentHand r)) + 1)\<rparr>)"

fun runTrials ::
  "(nat \<Rightarrow> Card list \<Rightarrow> Card list) \<Rightarrow> Card list \<Rightarrow> Card list \<Rightarrow> Card list \<Rightarrow> int
   \<Rightarrow> nat list \<Rightarrow> Tally \<Rightarrow> error + Tally" where
  "runTrials shuffleOf playerCards community available numOpponents [] t = Inr t"
| "runTrials shuffleOf playerCards community available numOpponents (i # trials) t =
     (case runSingleSimulation (shuffleOf i) playerCards community available numOpponents of
        Inl err \<Rightarrow> Inl err
      | Inr r \<Rightarrow>
          runTrials shuffleOf playerCards community available numOpponents trials
            (tallyOutcome t r))"

definition allHandRanks :: "HandRankEnum list" where
  "allHandRanks =
     [HIGHCARD, ONEPAIR, TWOPAIR, THREEOFAKIND, STRAIGHT, FLUSH, FULLHOUSE, FOUROFKIND,
      STRAIGHTFLUSH, ROYALFLUSH]"

definition convertToHandStrengthResults :: "(HandRankEnum \<Rightarrow> nat) \<Rightarrow> (HandRankEnum \<times> nat) list" where
  "convertToHandStrengthResults strengths =
     sortBy (\<lambda>a b. int (snd b) - int (snd a))
       (filter (\<lambda>r. snd r > 0) (map (\<lambda>h. (h, strengths h)) allHandRanks))"

definition runSimulationSync ::
  "(nat \<Rightarrow> Card list \<Rightarrow> Card list) \<Rightarrow> Card list \<Rightarrow> Card list \<Rightarrow> Card list \<Rightarrow> int
   \<Rightarrow> error + PredictionResult" where
  "runSimulationSync shuffleOf playerCards community available numOpponents =
     (case runTrials shuffleOf playerCards community available numOpponents
             [0..<SIMULATION_COUNT]
             \<lparr>winsT = 0, tiesT = 0, lossesT = 0, playerHandStrengths = (\<lambda>h. 0),
              opponentStrengths = (\<lambda>h. 0)\<rparr> of
        Inl err \<Rightarrow> Inl err
      | Inr t \<Rightarrow>
          Inr \<lparr>wins = winsT t, ties = tiesT t, losses = lossesT t,
               handStrengths = convertToHandStrengthResults (playerHandStrengths t),
               opponentHandStrengths = convertToHandStrengthResults (opponentStrengths t),
               totalSimulations = SIMULATION_COUNT\<rparr>)"

text \<open>
  \<^verbatim>\<open>runSimulation\<close>. The static cache is a \<^verbatim>\<open>Map\<close>, modelled as the list of its
  entries in insertion order; the function returns the result and the cache after the
  call. Two cards have the same key \<^verbatim>\<open>`${card.rank}-${card.suit}`\<close> exactly when they
  are equal, so the available cards are the cards of \<open>ALL_CARDS\<close> that are not among the
  player's and the community cards.
\<close>

definition availableCards :: "Card list \<Rightarrow> Card list \<Rightarrow> Card list" where
  "availableCards playerCards community =
     filter (\<lambda>c. c \<notin> set (playerCards @ community)) ALL_CARDS"

definition runSimulation ::
  "(string \<times> PredictionResult) list \<Rightarrow> (nat \<Rightarrow> Card list \<Rightarrow> Card list) \<Rightarrow> Card list
   \<Rightarrow> Card list \<Rightarrow> int
   \<Rightarrow> error + (PredictionResult \<times> (string \<times> PredictionResult) list)" where
  "runSimulation cache shuffleOf playerCards community numOpponents =
     (if length playerCards \<noteq> 2 then Inl PLAYER_EXACTLY_TWO_CARDS
      else if length community < 3 \<or> length community > 5 then Inl COMMUNITY_CARDS_3_TO_5
      else
        (let cacheKey = createCacheKey playerCards community numOpponents in
         case map_of cache cacheKey of
           Some cached \<Rightarrow> Inr (cached, cache)
         | None \<Rightarrow>
             (case runSimulationSync shuffleOf playerCards community
                     (availableCards playerCards community) numOpponents of
                Inl err \<Rightarrow> Inl err
              | Inr result \<Rightarrow>
                  (let cache1 = cache @ [(cacheKey, result)]
                   in Inr (result, if length cache1 > 100 then tl cache1 else cache1)))))"

section \<open>Quantities and example states used in the statements\<close>




text \<open>The action is reopened for everybody but the player with id \<open>pid\<close>.\<close>

definition actionReopened :: "string \<Rightarrow> GameState \<Rightarrow> bool" where
  "actionReopened pid g \<longleftrightarrow>
     (\<forall>q \<in> set (players g).
        id_player q \<noteq> pid \<and> \<not> isFolded q \<and> \<not> isAllIn q \<longrightarrow> \<not> hasActed q)"

definition mkPlayer :: "string \<Rightarrow> int \<Rightarrow> int \<Rightarrow> PlayerRoleEnum \<Rightarrow> Player" where
  "mkPlayer n c b r =
     \<lparr>id_player = n, name = n, hand = [], chips = c, currentBet = b, totalBet = b,
      isFolded = False, role = r, hasActed = False, isAllIn = False\<rparr>"

definition mkState :: "Player list \<Rightarrow> int \<Rightarrow> GameState" where
  "mkState ps p =
     \<lparr>players = ps, deck = [], pot = p, communityCards = [], currentPlayerIndex = 0,
      round = PREFLOP, bigBlind = 20, smallBlind = 10, minBet = 20, lastRaise = 20,
      message = [], winners = [], tournamentWinner = None, gameEnded = False\<rparr>"

text \<open>Heads-up, blinds of 10 and 20 posted from stacks of 1000, nobody has acted.\<close>

definition blindsPosted :: GameState where
  "blindsPosted = mkState [mkPlayer ''0'' 980 20 BIG_BLIND, mkPlayer ''1'' 990 10 DEALER] 30"

text \<open>The same street after the big blind has checked his option.\<close>

definition bigBlindActed :: GameState where
  "bigBlindActed =
     mkState [(mkPlayer ''0'' 980 20 BIG_BLIND)\<lparr>hasActed := True\<rparr>,
              mkPlayer ''1'' 980 20 DEALER] 40"

definition raiseTo :: "string \<Rightarrow> int \<Rightarrow> Action" where
  "raiseTo pid v = \<lparr>playerId = pid, type_action = Raise, amount_action = Some v\<rparr>"

definition act :: "string \<Rightarrow> PlayerActionEnum \<Rightarrow> Action" where
  "act pid t = \<lparr>playerId = pid, type_action = t, amount_action = None\<rparr>"

text \<open>
  A player who is neither folded nor all-in and has not acted, and a fresh table with
  blinds of 10 and 20, for stating the first hand of a game.
\<close>

definition seat ::
  "string \<Rightarrow> string \<Rightarrow> PlayerRoleEnum \<Rightarrow> int \<Rightarrow> int \<Rightarrow> Card list \<Rightarrow> Player" where
  "seat i n r c b h =
     \<lparr>id_player = i, name = n, hand = h, chips = c, currentBet = b, totalBet = b,
      isFolded = False, role = r, hasActed = False, isAllIn = False\<rparr>"

definition table :: "Player list \<Rightarrow> Card list \<Rightarrow> int \<Rightarrow> nat \<Rightarrow> string \<Rightarrow> GameState" where
  "table ps d p cur msg =
     \<lparr>players = ps, deck = d, pot = p, communityCards = [], currentPlayerIndex = cur,
      round = PREFLOP, bigBlind = 20, smallBlind = 10, minBet = 20, lastRaise = 20,
      message = msg, winners = [], tournamentWinner = None, gameEnded = False\<rparr>"

text \<open>The game that the constructor builds for two names, and its first hand.\<close>

definition freshHeadsUp :: PokerGame where
  "freshHeadsUp =
     \<lparr>gameState = initializeGame (initializePlayers [''P0'', ''P1'']) ALL_CARDS,
      handNumber = 0\<rparr>"

definition firstHand :: GameState where
  "firstHand = gameState (projr (startNewHand freshHeadsUp ALL_CARDS))"

text \<open>
  Three seats of which the first was eliminated: two players are left, and the last
  hand had the button on seat 1.
\<close>

definition viewerTable :: GameState where
  "viewerTable =
     mkState [mkPlayer ''0'' 0 0 VIEWER, mkPlayer ''1'' 1500 0 DEALER,
              mkPlayer ''2'' 1500 0 BIG_BLIND] 0"

text \<open>Heads-up after the blinds, the big blind has folded: one active player is left.\<close>

definition oneLeft :: GameState where
  "oneLeft =
     mkState [(mkPlayer ''0'' 980 20 BIG_BLIND)\<lparr>isFolded := True, hasActed := True\<rparr>,
              mkPlayer ''1'' 990 10 DEALER] 30"

text \<open>Heads-up after the blinds, both players have folded: no active player is left.\<close>

definition noneLeft :: GameState where
  "noneLeft =
     mkState [(mkPlayer ''0'' 980 20 BIG_BLIND)\<lparr>isFolded := True, hasActed := True\<rparr>,
              (mkPlayer ''1'' 990 10 DEALER)\<lparr>isFolded := True, hasActed := True\<rparr>] 30"

text \<open>
  What \<open>processAction\<close> answers when the hand has ended before the action is looked at:
  with \<open>w\<close> the one active player left, and with nobody left.
\<close>

definition automaticWin :: "GameState \<Rightarrow> nat \<Rightarrow> ActionResult" where
  "automaticWin g w =
     \<lparr>success = True,
      message_result = name (players g ! w) @ '' wins by default (all others folded)!'',
      gameState_result =
        g\<lparr>round := SHOWDOWN,
          message := name (players g ! w) @ '' wins by default (all others folded)!'',
          winners := [w]\<rparr>\<rparr>"

definition noActivePlayers :: "GameState \<Rightarrow> ActionResult" where
  "noActivePlayers g =
     \<lparr>success = False,
      message_result = ''Hand is already complete - only one player remains'',
      gameState_result =
        g\<lparr>round := SHOWDOWN, message := ''Hand ended with no active players''\<rparr>\<rparr>"

text \<open>Three five-card hands without a flush: the wheel, a six-high and an ace-high straight.\<close>

definition wheelHand :: "Card list" where
  "wheelHand =
     [\<lparr>rank = R3, suit = SPADES\<rparr>, \<lparr>rank = A, suit = HEARTS\<rparr>, \<lparr>rank = R5, suit = CLUBS\<rparr>,
      \<lparr>rank = R2, suit = SPADES\<rparr>, \<lparr>rank = R4, suit = DIAMONDS\<rparr>]"

definition sixHighHand :: "Card list" where
  "sixHighHand =
     [\<lparr>rank = R6, suit = HEARTS\<rparr>, \<lparr>rank = R2, suit = HEARTS\<rparr>, \<lparr>rank = R5, suit = SPADES\<rparr>,
      \<lparr>rank = R3, suit = HEARTS\<rparr>, \<lparr>rank = R4, suit = HEARTS\<rparr>]"

definition aceHighHand :: "Card list" where
  "aceHighHand =
     [\<lparr>rank = K, suit = CLUBS\<rparr>, \<lparr>rank = A, suit = CLUBS\<rparr>, \<lparr>rank = R10, suit = CLUBS\<rparr>,
      \<lparr>rank = Q, suit = DIAMONDS\<rparr>, \<lparr>rank = J, suit = CLUBS\<rparr>]"





section \<open>Well-formed input of the distribution, and what a paid pot looks like\<close>











text \<open>
  The two errors that the simulator throws for a violated card count, and the input of
  the equity scenario: a pair of aces on a flop of 2, 7, 9, with a shuffle that leaves
  the cards as they are.
\<close>

definition validationError :: "error \<Rightarrow> bool" where
  "validationError e \<longleftrightarrow> e = PLAYER_EXACTLY_TWO_CARDS \<or> e = COMMUNITY_CARDS_3_TO_5"

definition pocketAces :: "Card list" where
  "pocketAces = [\<lparr>rank = A, suit = SPADES\<rparr>, \<lparr>rank = A, suit = HEARTS\<rparr>]"

definition flop279 :: "Card list" where
  "flop279 = [\<lparr>rank = R2, suit = CLUBS\<rparr>, \<lparr>rank = R7, suit = DIAMONDS\<rparr>,
              \<lparr>rank = R9, suit = HEARTS\<rparr>]"

definition noShuffle :: "nat \<Rightarrow> Card list \<Rightarrow> Card list" where
  "noShuffle i cards = cards"

section \<open>Card serialisation\<close>

lemma stringToCard_cardToString: "stringToCard (cardToString c) = Some c"
  by (cases c; cases "rank c"; cases "suit c";
      simp add: stringToCard_def cardToString_def regexExec_def rankAlternatives_def
        suitAlternatives_def rankMap_def suitMap_def)

lemma regexExec_None_iff: "regexExec code = None \<longleftrightarrow> code \<notin> range cardToString"
proof
  assume n: "regexExec code = None"
  show "code \<notin> range cardToString"
  proof
    assume "code \<in> range cardToString"
    then obtain c where "code = cardToString c" by blast
    then have "stringToCard code = Some c" by (simp add: stringToCard_cardToString)
    with n show False by (simp add: stringToCard_def)
  qed
next
  assume notin: "code \<notin> range cardToString"
  show "regexExec code = None"
  proof (cases "regexExec code")
    case None
    then show ?thesis .
  next
    case (Some m)
    obtain r s where m: "m = (r, s)" by (cases m)
    from Some m obtain rest where
      "[(r, s). r \<leftarrow> rankAlternatives, s \<leftarrow> suitAlternatives, code = r @ s] = (r, s) # rest"
      by (auto simp: regexExec_def split: list.splits)
    then have "(r, s) \<in> set [(r, s). r \<leftarrow> rankAlternatives, s \<leftarrow> suitAlternatives, code = r @ s]"
      by (metis list.set_intros(1))
    then have rs: "r \<in> set rankAlternatives" "s \<in> set suitAlternatives" "code = r @ s"
      by auto
    from rs(1) obtain rk where rk: "r = rankString rk"
      by (auto simp: rankAlternatives_def intro: rankString.simps[symmetric])
    from rs(2) obtain su where su: "s = suitString su"
      by (auto simp: suitAlternatives_def intro: suitString.simps[symmetric])
    have "code = cardToString \<lparr>rank = rk, suit = su\<rparr>"
      using rs(3) rk su by (simp add: cardToString_def)
    with notin show ?thesis by blast
  qed
qed

text \<open>
  Claim C10. Serialising a card with \<open>cardToString\<close> and parsing the code with
  \<open>stringToCard\<close> gives the card back, and every string that is not the code of a
  card (a malformed code) is parsed to \<open>None\<close>, the model of \<^verbatim>\<open>null\<close>; the
  function has no failing branch.
\<close>

theorem C10_card_roundtrip:
  "stringToCard (cardToString c) = Some c
   \<and> (code \<notin> range cardToString \<longrightarrow> stringToCard code = None)"
proof (intro conjI impI)
  show "stringToCard (cardToString c) = Some c"
    by (rule stringToCard_cardToString)
next
  assume "code \<notin> range cardToString"
  then have "regexExec code = None"
    by (simp add: regexExec_None_iff)
  then show "stringToCard code = None"
    by (simp add: stringToCard_def)
qed

lemma malformed_example: "''1SPADES'' \<notin> range cardToString"
proof
  assume "''1SPADES'' \<in> range cardToString"
  then obtain c where c: "''1SPADES'' = cardToString c" by blast
  show False
    using c by (cases "rank c"; cases "suit c"; simp add: cardToString_def)
qed

theorem C10_card_roundtrip_witness:
  "stringToCard (cardToString \<lparr>rank = R10, suit = HEARTS\<rparr>) = Some \<lparr>rank = R10, suit = HEARTS\<rparr>
   \<and> ''1SPADES'' \<notin> range cardToString \<and> stringToCard ''1SPADES'' = None"
  using C10_card_roundtrip[of "\<lparr>rank = R10, suit = HEARTS\<rparr>" "''1SPADES''"] malformed_example
  by simp

section \<open>Chip conservation of the betting actions\<close>



lemma chips_reopenAction [simp]: "map chips (reopenAction pid ps) = map chips ps"
  by (induction ps) (auto simp: reopenAction_def)

lemma length_reopenAction [simp]: "length (reopenAction pid ps) = length ps"
  by (simp add: reopenAction_def)

lemma findIndex_Some:
  "findIndex P xs = Some i \<Longrightarrow> i < length xs \<and> P (xs ! i) \<and> (\<forall>j<i. \<not> P (xs ! j))"
proof (induction xs arbitrary: i)
  case Nil
  then show ?case by simp
next
  case (Cons x xs)
  show ?case
  proof (cases "P x")
    case True
    with Cons.prems show ?thesis by simp
  next
    case False
    with Cons.prems obtain k where k: "findIndex P xs = Some k" "i = Suc k" by auto
    from Cons.IH[OF k(1)] False k(2) show ?thesis
      by (auto simp: less_Suc_eq_0_disj)
  qed
qed

lemma findPlayer_Some:
  assumes "findPlayer gs pid = Some i"
  shows "i < length (players gs)" and "id_player (players gs ! i) = pid"
  using findIndex_Some[of "\<lambda>p. id_player p = pid" "players gs" i] assms
  by (auto simp: findPlayer_def)










section \<open>A raise reopens the action\<close>

lemma actionReopened_reopen:
  assumes "i < length ps" "id_player p' = pid"
  shows "actionReopened pid (g\<lparr>players := (reopenAction pid ps)[i := p']\<rparr>)"
  using assms
  by (auto simp: actionReopened_def reopenAction_def set_conv_nth nth_list_update
      split: if_splits)

lemma reopenAction_nth_id [simp]:
  "j < length ps \<Longrightarrow> id_player (reopenAction pid ps ! j) = id_player (ps ! j)"
  by (auto simp: reopenAction_def)

lemma actionReopened_plain: "actionReopened pid (g\<lparr>players := reopenAction pid ps\<rparr>)"
  by (auto simp: actionReopened_def reopenAction_def)

lemma actionReopened_message [simp]:
  "actionReopened pid (g\<lparr>message := m\<rparr>) = actionReopened pid g"
  by (simp add: actionReopened_def)

lemma raise_valid_facts:
  assumes f: "findPlayer gs (playerId a) = Some i"
    and t: "type_action a = Raise"
    and v: "isValid (validatePlayerAction gs a)"
  shows "\<not> amountMissing a"
    and "the (amount_action a) \<le> chips (players gs ! i) + currentBet (players gs ! i)"
    and "getMinimumRaise gs \<le> the (amount_action a)"
  using v f t
  by (auto simp: validatePlayerAction_def Let_def validateRaise_def split: if_splits)

lemma raise_reopens:
  assumes f: "findPlayer gs (playerId a) = Some i"
    and t: "type_action a = Raise"
    and v: "isValid (validatePlayerAction gs a)"
  shows "actionReopened (playerId a) (processValidatedAction gs a)"
    and "currentBet (players (processValidatedAction gs a) ! i) = the (amount_action a)"
    and "minBet (processValidatedAction gs a) = the (amount_action a)"
    and "lastRaise (processValidatedAction gs a) = the (amount_action a) - getHighestCurrentBet gs"
proof -
  note i = findPlayer_Some(1)[OF f] and pid = findPlayer_Some(2)[OF f]
  note vf = raise_valid_facts[OF f t v]
  have rt: "min (the (amount_action a)) (chips (players gs ! i) + currentBet (players gs ! i))
            = the (amount_action a)"
    using vf(2) by simp
  show "actionReopened (playerId a) (processValidatedAction gs a)"
    using i pid vf(1)
    by (simp add: processValidatedAction_def f t processRaise_def Let_def updatePlayer_def
        actionReopened_reopen actionReopened_plain)
  show "currentBet (players (processValidatedAction gs a) ! i) = the (amount_action a)"
    using i pid vf(1) rt
    by (simp add: processValidatedAction_def f t processRaise_def Let_def updatePlayer_def
        reopenAction_def)
  show "minBet (processValidatedAction gs a) = the (amount_action a)"
    using i vf(1) rt
    by (simp add: processValidatedAction_def f t processRaise_def Let_def updatePlayer_def)
  show "lastRaise (processValidatedAction gs a) = the (amount_action a) - getHighestCurrentBet gs"
    using i vf(1) rt
    by (simp add: processValidatedAction_def f t processRaise_def Let_def updatePlayer_def)
qed

lemma allIn_reopens:
  assumes f: "findPlayer gs (playerId a) = Some i"
    and t: "type_action a = AllIn"
    and v: "currentBet (players (processValidatedAction gs a) ! i) > getHighestCurrentBet gs"
  shows "actionReopened (playerId a) (processValidatedAction gs a)"
    and "minBet (processValidatedAction gs a)
           = currentBet (players (processValidatedAction gs a) ! i)"
    and "lastRaise (processValidatedAction gs a)
           = currentBet (players (processValidatedAction gs a) ! i) - getHighestCurrentBet gs"
proof -
  note i = findPlayer_Some(1)[OF f] and pid = findPlayer_Some(2)[OF f]
  have cb: "currentBet (players (processValidatedAction gs a) ! i)
            = currentBet (players gs ! i) + chips (players gs ! i)"
    using i pid
    by (simp add: processValidatedAction_def f t processAllIn_def Let_def updatePlayer_def
        reopenAction_def)
  from v cb have gt:
    "getHighestCurrentBet gs < currentBet (players gs ! i) + chips (players gs ! i)"
    by simp
  show "actionReopened (playerId a) (processValidatedAction gs a)"
    using i pid gt
    by (simp add: processValidatedAction_def f t processAllIn_def Let_def updatePlayer_def
        actionReopened_plain)
  show "minBet (processValidatedAction gs a)
          = currentBet (players (processValidatedAction gs a) ! i)"
    unfolding cb using i gt
    by (simp add: processValidatedAction_def f t processAllIn_def Let_def updatePlayer_def)
  show "lastRaise (processValidatedAction gs a)
          = currentBet (players (processValidatedAction gs a) ! i) - getHighestCurrentBet gs"
    unfolding cb using i gt
    by (simp add: processValidatedAction_def f t processAllIn_def Let_def updatePlayer_def)
qed

text \<open>
  Claim C4. Let \<open>i\<close> be the acting player. After a Raise that passed validation, and
  after an AllIn that leaves the actor's \<open>currentBet\<close> above the highest bet before the
  action, every player with another id who is neither folded nor all-in has
  \<open>hasActed = False\<close>, \<open>minBet\<close> is the actor's new \<open>currentBet\<close>, and \<open>lastRaise\<close> is that
  bet minus the highest bet before the action.
\<close>

theorem C4_raise_reopens_action:
  assumes "findPlayer gs (playerId a) = Some i"
    and "type_action a = Raise \<and> isValid (validatePlayerAction gs a)
         \<or> type_action a = AllIn
            \<and> getHighestCurrentBet gs < currentBet (players (processValidatedAction gs a) ! i)"
  shows "actionReopened (playerId a) (processValidatedAction gs a)
     \<and> minBet (processValidatedAction gs a)
         = currentBet (players (processValidatedAction gs a) ! i)
     \<and> lastRaise (processValidatedAction gs a)
         = currentBet (players (processValidatedAction gs a) ! i) - getHighestCurrentBet gs"
  using assms raise_reopens[of gs a i] allIn_reopens[of gs a i]
  by auto



lemma bigBlindActed_find: "findPlayer bigBlindActed ''1'' = Some 1"
  by (simp add: findPlayer_def bigBlindActed_def mkState_def mkPlayer_def)

lemma bigBlindActed_raise_valid: "isValid (validatePlayerAction bigBlindActed (raiseTo ''1'' 60))"
  by (simp add: validatePlayerAction_def bigBlindActed_find raiseTo_def)
     (simp add: bigBlindActed_def mkState_def mkPlayer_def Let_def validateRaise_def
        getAllowedActions_def getMinimumRaise_def getHighestCurrentBet_def amountMissing_def)

lemma bigBlindActed_raise:
  "players (processValidatedAction bigBlindActed (raiseTo ''1'' 60))
    = [mkPlayer ''0'' 980 20 BIG_BLIND,
       (mkPlayer ''1'' 940 60 DEALER)\<lparr>hasActed := True\<rparr>]"
  by (simp add: processValidatedAction_def bigBlindActed_find raiseTo_def)
     (simp add: processRaise_def bigBlindActed_def mkState_def mkPlayer_def Let_def
        updatePlayer_def reopenAction_def getHighestCurrentBet_def amountMissing_def)

lemma bigBlindActed_allIn:
  "players (processValidatedAction bigBlindActed (act ''1'' AllIn))
    = [mkPlayer ''0'' 980 20 BIG_BLIND,
       (mkPlayer ''1'' 0 1000 DEALER)\<lparr>hasActed := True, isAllIn := True\<rparr>]"
  by (simp add: processValidatedAction_def bigBlindActed_find act_def)
     (simp add: processAllIn_def bigBlindActed_def mkState_def mkPlayer_def Let_def
        updatePlayer_def reopenAction_def getHighestCurrentBet_def)

lemma bigBlindActed_highest: "getHighestCurrentBet bigBlindActed = 20"
  by (simp add: bigBlindActed_def mkState_def mkPlayer_def getHighestCurrentBet_def)

theorem C4_raise_reopens_action_witness:
  "findPlayer bigBlindActed ''1'' = Some 1
   \<and> isValid (validatePlayerAction bigBlindActed (raiseTo ''1'' 60))
   \<and> hasActed (players bigBlindActed ! 0)
   \<and> actionReopened ''1'' (processValidatedAction bigBlindActed (raiseTo ''1'' 60))
   \<and> \<not> hasActed (players (processValidatedAction bigBlindActed (raiseTo ''1'' 60)) ! 0)
   \<and> minBet (processValidatedAction bigBlindActed (raiseTo ''1'' 60)) = 60
   \<and> lastRaise (processValidatedAction bigBlindActed (raiseTo ''1'' 60)) = 40
   \<and> actionReopened ''1'' (processValidatedAction bigBlindActed (act ''1'' AllIn))
   \<and> minBet (processValidatedAction bigBlindActed (act ''1'' AllIn)) = 1000
   \<and> lastRaise (processValidatedAction bigBlindActed (act ''1'' AllIn)) = 980"
proof -
  have r: "playerId (raiseTo ''1'' 60) = ''1''" "type_action (raiseTo ''1'' 60) = Raise"
    and a: "playerId (act ''1'' AllIn) = ''1''" "type_action (act ''1'' AllIn) = AllIn"
    by (simp_all add: raiseTo_def act_def)
  have h0: "hasActed (players bigBlindActed ! 0)"
    by (simp add: bigBlindActed_def mkState_def mkPlayer_def)
  show ?thesis
    using C4_raise_reopens_action[of bigBlindActed "raiseTo ''1'' 60" 1]
      C4_raise_reopens_action[of bigBlindActed "act ''1'' AllIn" 1]
      bigBlindActed_find bigBlindActed_raise_valid h0
    by (simp add: r a bigBlindActed_raise bigBlindActed_allIn bigBlindActed_highest mkPlayer_def)
qed

section \<open>The first hand of a heads-up game\<close>

lemma newPokerGame_two:
  "newPokerGame [n0, n1] d0 =
     Inr \<lparr>gameState = table [seat (natToString 0) n0 DEALER 1000 0 [],
                              seat (natToString 1) n1 BIG_BLIND 1000 0 []] d0 0 0
                         ''Game initialized. Ready to start a new hand.'',
          handNumber = 0\<rparr>"
  by (simp add: newPokerGame_def initializeGame_def initializePlayers_def initialRole_def
      table_def seat_def)

lemma rotate_two:
  "rotateDealerButton (table [seat i0 n0 DEALER 1000 0 [], seat i1 n1 BIG_BLIND 1000 0 []] d p c m)
   = table [seat i0 n0 BIG_BLIND 1000 0 [], seat i1 n1 DEALER 1000 0 []] d p c m"
  by (simp add: rotateDealerButton_def filterPlayers_def setRole_def Let_def table_def seat_def)

lemma elim_two:
  "handlePlayerElimination (table [seat i0 n0 r0 1000 0 [], seat i1 n1 r1 1000 0 []] d p c m)
   = table [seat i0 n0 r0 1000 0 [], seat i1 n1 r1 1000 0 []] d p c m"
  by (simp add: handlePlayerElimination_def Let_def table_def seat_def)

lemma setup_two:
  "setupNewHand (table [seat i0 n0 DEALER 1000 0 [], seat i1 n1 BIG_BLIND 1000 0 []] d 0 0 m) shuffled
   = table [seat i0 n0 BIG_BLIND 1000 0 [], seat i1 n1 DEALER 1000 0 []] shuffled 0 0
       ''New hand started''"
proof -
  have a: "(table [seat i0 n0 DEALER 1000 0 [], seat i1 n1 BIG_BLIND 1000 0 []] d 0 0 m)
        \<lparr>pot := 0, communityCards := [],
          minBet := bigBlind (table [seat i0 n0 DEALER 1000 0 [], seat i1 n1 BIG_BLIND 1000 0 []] d 0 0 m),
          lastRaise := bigBlind (table [seat i0 n0 DEALER 1000 0 [], seat i1 n1 BIG_BLIND 1000 0 []] d 0 0 m),
          deck := shuffled\<rparr>
       = table [seat i0 n0 DEALER 1000 0 [], seat i1 n1 BIG_BLIND 1000 0 []] shuffled 0 0 m"
    by (simp add: table_def)
  have b: "(table [seat i0 n0 DEALER 1000 0 [], seat i1 n1 BIG_BLIND 1000 0 []] shuffled 0 0 m)
         \<lparr>players := map (\<lambda>p. p\<lparr>hand := [], currentBet := 0, totalBet := 0, isFolded := False,
                                 hasActed := False, isAllIn := False\<rparr>)
             (players (table [seat i0 n0 DEALER 1000 0 [], seat i1 n1 BIG_BLIND 1000 0 []] shuffled 0 0 m))\<rparr>
       = table [seat i0 n0 DEALER 1000 0 [], seat i1 n1 BIG_BLIND 1000 0 []] shuffled 0 0 m"
    by (simp add: table_def seat_def)
  show ?thesis
    unfolding setupNewHand_def Let_def a elim_two b rotate_two
    by (simp add: table_def)
qed

lemma blinds_two:
  "placeBlinds (table [seat i0 n0 BIG_BLIND 1000 0 [], seat i1 n1 DEALER 1000 0 []] d 0 0 m)
   = table [seat i0 n0 BIG_BLIND 980 20 [], seat i1 n1 DEALER 990 10 []] d 30 0 ''Blinds posted''"
  by (simp add: placeBlinds_def postBlind_def updatePlayer_def Let_def table_def seat_def)

lemma deal_two:
  "dealHoleCards (table [seat i0 n0 BIG_BLIND 980 20 [], seat i1 n1 DEALER 990 10 []] d 30 0 m)
      (a # b # c # e # rest)
   = Inr (table [seat i0 n0 BIG_BLIND 980 20 [a, c], seat i1 n1 DEALER 990 10 [b, e]] rest 30 0
        ''Hole cards dealt'')"
  by (simp add: dealHoleCards_def dealToPlayers_def dealOne_def filterPlayers_def Let_def
      table_def seat_def)

lemma first_two:
  "setPREFLOPFirstPlayer
     ((table [seat i0 n0 BIG_BLIND 980 20 h0, seat i1 n1 DEALER 990 10 h1] d 30 0 m)\<lparr>round := PREFLOP\<rparr>)
   = table [seat i0 n0 BIG_BLIND 980 20 h0, seat i1 n1 DEALER 990 10 h1] d 30 1 m"
  by (simp add: setPREFLOPFirstPlayer_def table_def seat_def)

lemma noWinner_two:
  "\<not> hasTournamentWinner (table [seat i0 n0 DEALER 1000 0 [], seat i1 n1 BIG_BLIND 1000 0 []] d p c m)"
  by (simp add: hasTournamentWinner_def table_def seat_def)

lemma start_two:
  "startNewHand
     \<lparr>gameState = table [seat i0 n0 DEALER 1000 0 [], seat i1 n1 BIG_BLIND 1000 0 []] d 0 0 m,
      handNumber = k\<rparr> (a # b # c # e # rest)
   = Inr \<lparr>gameState = table [seat i0 n0 BIG_BLIND 980 20 [a, c], seat i1 n1 DEALER 990 10 [b, e]]
                         rest 30 1 ''Hole cards dealt'',
          handNumber = k + 1\<rparr>"
proof -
  have w: "(table [seat i0 n0 DEALER 1000 0 [], seat i1 n1 BIG_BLIND 1000 0 []] d 0 0 m)\<lparr>winners := []\<rparr>
     = table [seat i0 n0 DEALER 1000 0 [], seat i1 n1 BIG_BLIND 1000 0 []] d 0 0 m"
    by (simp add: table_def)
  show ?thesis
    unfolding startNewHand_def Let_def
    by (simp add: noWinner_two w setup_two blinds_two deal_two first_two)
qed

text \<open>
  Claim C6, as the code has it. \<open>startNewHand\<close> rotates the button before the blinds are
  posted, also on the first hand, so the button set on seat 0 by the constructor has
  moved to seat 1. For a fresh game of two players and any deck of at least four cards:
  the pot is 30, P1 is the dealer, has posted the small blind (chips 990, bet 10) and
  acts first; P0 has posted the big blind (chips 980, bet 20); both hold two hole cards
  and the round is PREFLOP.
\<close>

theorem C6_heads_up_first_hand:
  assumes "newPokerGame [n0, n1] d0 = Inr game" and "4 \<le> length shuffled"
  shows "\<exists>game'. startNewHand game shuffled = Inr game'
     \<and> length (players (gameState game')) = 2
     \<and> pot (gameState game') = 30
     \<and> role (players (gameState game') ! 1) = DEALER
     \<and> chips (players (gameState game') ! 1) = 990
     \<and> currentBet (players (gameState game') ! 1) = 10
     \<and> role (players (gameState game') ! 0) = BIG_BLIND
     \<and> chips (players (gameState game') ! 0) = 980
     \<and> currentBet (players (gameState game') ! 0) = 20
     \<and> length (hand (players (gameState game') ! 0)) = 2
     \<and> length (hand (players (gameState game') ! 1)) = 2
     \<and> round (gameState game') = PREFLOP
     \<and> currentPlayerIndex (gameState game') = 1"
proof -
  from assms(2) obtain a b c e rest where sh: "shuffled = a # b # c # e # rest"
    by (cases shuffled; cases "tl shuffled"; cases "tl (tl shuffled)";
        cases "tl (tl (tl shuffled))"; auto)
  from assms(1) have g: "game =
      \<lparr>gameState = table [seat (natToString 0) n0 DEALER 1000 0 [],
                          seat (natToString 1) n1 BIG_BLIND 1000 0 []] d0 0 0
                     ''Game initialized. Ready to start a new hand.'',
       handNumber = 0\<rparr>"
    by (simp add: newPokerGame_two)
  show ?thesis
    unfolding g sh start_two
    by (simp add: table_def seat_def)
qed

lemma ALL_CARDS_first_four:
  "\<exists>rest. ALL_CARDS = \<lparr>rank = R2, suit = SPADES\<rparr> # \<lparr>rank = R3, suit = SPADES\<rparr>
      # \<lparr>rank = R4, suit = SPADES\<rparr> # \<lparr>rank = R5, suit = SPADES\<rparr> # rest"
  by (simp add: ALL_CARDS_def allSuits_def allRanks_def)

lemma length_ALL_CARDS: "length ALL_CARDS = 52"
  by (simp add: ALL_CARDS_def allSuits_def allRanks_def)

lemma freshHeadsUp_new: "newPokerGame [''P0'', ''P1''] ALL_CARDS = Inr freshHeadsUp"
  by (simp add: newPokerGame_def freshHeadsUp_def)

lemma firstHand_eq:
  "\<exists>h0 h1 rest. startNewHand freshHeadsUp ALL_CARDS =
     Inr \<lparr>gameState = table [seat (natToString 0) ''P0'' BIG_BLIND 980 20 h0,
                             seat (natToString 1) ''P1'' DEALER 990 10 h1]
                        rest 30 1 ''Hole cards dealt'',
          handNumber = 1\<rparr>"
proof -
  from ALL_CARDS_first_four obtain rest where
    r: "ALL_CARDS = \<lparr>rank = R2, suit = SPADES\<rparr> # \<lparr>rank = R3, suit = SPADES\<rparr>
          # \<lparr>rank = R4, suit = SPADES\<rparr> # \<lparr>rank = R5, suit = SPADES\<rparr> # rest"
    by blast
  have f: "freshHeadsUp =
      \<lparr>gameState = table [seat (natToString 0) ''P0'' DEALER 1000 0 [],
                          seat (natToString 1) ''P1'' BIG_BLIND 1000 0 []] ALL_CARDS 0 0
                     ''Game initialized. Ready to start a new hand.'',
       handNumber = 0\<rparr>"
    using freshHeadsUp_new by (simp add: newPokerGame_two)
  have "startNewHand
          \<lparr>gameState = table [seat (natToString 0) ''P0'' DEALER 1000 0 [],
                              seat (natToString 1) ''P1'' BIG_BLIND 1000 0 []] ALL_CARDS 0 0
                         ''Game initialized. Ready to start a new hand.'',
           handNumber = 0\<rparr>
          (\<lparr>rank = R2, suit = SPADES\<rparr> # \<lparr>rank = R3, suit = SPADES\<rparr>
            # \<lparr>rank = R4, suit = SPADES\<rparr> # \<lparr>rank = R5, suit = SPADES\<rparr> # rest)
        = Inr \<lparr>gameState =
                 table [seat (natToString 0) ''P0'' BIG_BLIND 980 20
                          [\<lparr>rank = R2, suit = SPADES\<rparr>, \<lparr>rank = R4, suit = SPADES\<rparr>],
                        seat (natToString 1) ''P1'' DEALER 990 10
                          [\<lparr>rank = R3, suit = SPADES\<rparr>, \<lparr>rank = R5, suit = SPADES\<rparr>]]
                   rest 30 1 ''Hole cards dealt'',
               handNumber = 0 + 1\<rparr>"
    by (rule start_two)
  then show ?thesis
    unfolding f r[symmetric] by auto
qed

theorem C6_heads_up_first_hand_witness:
  "newPokerGame [''P0'', ''P1''] ALL_CARDS = Inr freshHeadsUp
   \<and> 4 \<le> length ALL_CARDS
   \<and> startNewHand freshHeadsUp ALL_CARDS = Inr \<lparr>gameState = firstHand, handNumber = 1\<rparr>
   \<and> pot firstHand = 30
   \<and> role (players firstHand ! 1) = DEALER
   \<and> chips (players firstHand ! 1) = 990
   \<and> currentBet (players firstHand ! 1) = 10
   \<and> length (hand (players firstHand ! 0)) = 2
   \<and> round firstHand = PREFLOP
   \<and> currentPlayerIndex firstHand = 1"
proof -
  have l: "4 \<le> length ALL_CARDS" by (simp add: length_ALL_CARDS)
  from C6_heads_up_first_hand[OF freshHeadsUp_new l] firstHand_eq
  show ?thesis
    by (auto simp: firstHand_def freshHeadsUp_new l)
qed

text \<open>
  The scenario as the claim words it (P0 the dealer with chips 990 and bet 10, P1 with
  chips 980 and bet 20, P0 first to act) is not what the first hand looks like.
\<close>

theorem C6_scenario_counterexample:
  "newPokerGame [''P0'', ''P1''] ALL_CARDS = Inr freshHeadsUp
   \<and> startNewHand freshHeadsUp ALL_CARDS = Inr \<lparr>gameState = firstHand, handNumber = 1\<rparr>
   \<and> role (players firstHand ! 0) \<noteq> DEALER
   \<and> chips (players firstHand ! 0) \<noteq> 990
   \<and> currentBet (players firstHand ! 0) \<noteq> 10
   \<and> chips (players firstHand ! 1) \<noteq> 980
   \<and> currentBet (players firstHand ! 1) \<noteq> 20
   \<and> currentPlayerIndex firstHand \<noteq> 0"
  using firstHand_eq
  by (auto simp: firstHand_def freshHeadsUp_new table_def seat_def)


section \<open>Heads-up blinds at a table with eliminated seats\<close>

lemma rotate_viewerTable:
  "rotateDealerButton viewerTable =
     mkState [mkPlayer ''0'' 0 0 VIEWER, mkPlayer ''1'' 1500 0 BIG_BLIND,
              mkPlayer ''2'' 1500 0 DEALER] 0"
  by (simp add: rotateDealerButton_def viewerTable_def filterPlayers_def setRole_def Let_def
      mkState_def mkPlayer_def)

lemma blinds_viewerTable:
  "placeBlinds (mkState [mkPlayer ''0'' 0 0 VIEWER, mkPlayer ''1'' 1500 0 BIG_BLIND,
                         mkPlayer ''2'' 1500 0 DEALER] 0) =
     (mkState [mkPlayer ''0'' 0 0 VIEWER, mkPlayer ''1'' 1480 20 BIG_BLIND,
               mkPlayer ''2'' 1500 0 DEALER] 20)\<lparr>message := ''Blinds posted''\<rparr>"
  by (simp add: placeBlinds_def postBlind_def updatePlayer_def Let_def mkState_def mkPlayer_def)

text \<open>
  Claim C7 at a table of three seats of which one is a Viewer. \<open>rotateDealerButton\<close>
  counts the two players who are not viewers, makes seat 2 the dealer and seat 1 the big
  blind, and assigns no small blind. \<open>placeBlinds\<close> decides heads-up by the length of
  the whole players list (3), so it looks for a SMALL_BLIND role only and finds none:
  the dealer posts nothing and the pot holds the big blind alone.
\<close>

theorem C7_dealer_posts_no_small_blind:
  "length (filterPlayers (\<lambda>p. role p \<noteq> VIEWER) (players viewerTable)) = 2
   \<and> role (players (placeBlinds (rotateDealerButton viewerTable)) ! 2) = DEALER
   \<and> currentBet (players (placeBlinds (rotateDealerButton viewerTable)) ! 2) = 0
   \<and> chips (players (placeBlinds (rotateDealerButton viewerTable)) ! 2) = 1500
   \<and> role (players (placeBlinds (rotateDealerButton viewerTable)) ! 1) = BIG_BLIND
   \<and> currentBet (players (placeBlinds (rotateDealerButton viewerTable)) ! 1) = 20
   \<and> pot (placeBlinds (rotateDealerButton viewerTable)) = 20"
  unfolding rotate_viewerTable blinds_viewerTable
  by (simp add: viewerTable_def filterPlayers_def mkState_def mkPlayer_def)

section \<open>Rejected actions\<close>

lemma handleAutomaticWin_two_active:
  "2 \<le> length (getActivePlayers_PokerGame g) \<Longrightarrow> handleAutomaticWin g = (g, None)"
  by (cases "getActivePlayers_PokerGame g") (auto simp: handleAutomaticWin_def Let_def)

lemma processAction_rejected:
  assumes "2 \<le> length (getActivePlayers_PokerGame g)"
    and "\<not> isValid (validatePlayerAction_PokerGame g a)"
  shows "success (processAction g a) = False \<and> gameState_result (processAction g a) = g"
  using assms
  by (simp add: processAction_def handleAutomaticWin_two_active Let_def)

lemma processAction_one_active:
  assumes "getActivePlayers_PokerGame g = [w]"
  shows "processAction g a = automaticWin g w"
  using assms by (simp add: processAction_def handleAutomaticWin_def automaticWin_def Let_def)

lemma getActivePlayers_PokerGame_ended [simp]:
  "getActivePlayers_PokerGame (g\<lparr>round := r, message := m\<rparr>) = getActivePlayers_PokerGame g"
  by (simp add: getActivePlayers_PokerGame_def getActivePlayers_def)

lemma processAction_none_active:
  assumes "getActivePlayers_PokerGame g = []"
  shows "processAction g a = noActivePlayers g"
  using assms
  by (simp add: processAction_def handleAutomaticWin_def noActivePlayers_def Let_def
      validatePlayerAction_PokerGame_def shouldHandEndEarly_def)

text \<open>
  Claim C8, as the code has it. \<open>processAction\<close> first runs the automatic-win check,
  which ends the hand when fewer than two active players are left. With at least two
  active players an action that fails validation is answered with \<open>success = False\<close>
  and the game state is returned unchanged. With exactly one active player \<open>w\<close> every
  action, valid or not, is answered with \<open>success = True\<close> and the state has moved to
  SHOWDOWN with \<open>w\<close> as the winner and the message of the win; with no active player
  every action is answered with \<open>success = False\<close> and the state has moved to SHOWDOWN
  with the message of the ended hand.
\<close>

theorem C8_rejected_action_leaves_state:
  "(2 \<le> length (getActivePlayers_PokerGame g)
      \<and> \<not> isValid (validatePlayerAction_PokerGame g a)
     \<longrightarrow> success (processAction g a) = False \<and> gameState_result (processAction g a) = g)
   \<and> (getActivePlayers_PokerGame g = [w] \<longrightarrow> processAction g a = automaticWin g w)
   \<and> (getActivePlayers_PokerGame g = [] \<longrightarrow> processAction g a = noActivePlayers g)"
  using processAction_rejected[of g a] processAction_one_active[of g w a]
    processAction_none_active[of g a]
  by blast

lemma blindsPosted_active: "getActivePlayers_PokerGame blindsPosted = [0, 1]"
  by (simp add: getActivePlayers_PokerGame_def getActivePlayers_def filterPlayers_def
      blindsPosted_def mkState_def mkPlayer_def)

lemma blindsPosted_check_invalid:
  "\<not> isValid (validatePlayerAction_PokerGame blindsPosted (act ''1'' Check))"
proof -
  have f: "findPlayer blindsPosted ''1'' = Some 1"
    by (simp add: findPlayer_def blindsPosted_def mkState_def mkPlayer_def)
  have h: "getHighestCurrentBet blindsPosted = 20"
    by (simp add: getHighestCurrentBet_def blindsPosted_def mkState_def mkPlayer_def)
  have p: "players blindsPosted ! Suc 0 = mkPlayer ''1'' 990 10 DEALER"
    by (simp add: blindsPosted_def mkState_def)
  show ?thesis
    by (simp add: validatePlayerAction_PokerGame_def shouldHandEndEarly_def blindsPosted_active
        validatePlayerAction_def act_def f h p Let_def validateCheck_def mkPlayer_def)
qed

lemma oneLeft_active: "getActivePlayers_PokerGame oneLeft = [1]"
  by (simp add: getActivePlayers_PokerGame_def getActivePlayers_def filterPlayers_def
      oneLeft_def mkState_def mkPlayer_def)

lemma noneLeft_active: "getActivePlayers_PokerGame noneLeft = []"
  by (simp add: getActivePlayers_PokerGame_def getActivePlayers_def filterPlayers_def
      noneLeft_def mkState_def mkPlayer_def)

theorem C8_rejected_action_leaves_state_witness:
  "2 \<le> length (getActivePlayers_PokerGame blindsPosted)
   \<and> \<not> isValid (validatePlayerAction_PokerGame blindsPosted (act ''1'' Check))
   \<and> success (processAction blindsPosted (act ''1'' Check)) = False
   \<and> gameState_result (processAction blindsPosted (act ''1'' Check)) = blindsPosted
   \<and> getActivePlayers_PokerGame oneLeft = [1]
   \<and> processAction oneLeft (act ''0'' Check) = automaticWin oneLeft 1
   \<and> getActivePlayers_PokerGame noneLeft = []
   \<and> processAction noneLeft (act ''0'' Check) = noActivePlayers noneLeft"
proof -
  have l: "2 \<le> length (getActivePlayers_PokerGame blindsPosted)"
    by (simp add: blindsPosted_active)
  from C8_rejected_action_leaves_state[of blindsPosted "act ''1'' Check" 0]
    C8_rejected_action_leaves_state[of oneLeft "act ''0'' Check" 1]
    C8_rejected_action_leaves_state[of noneLeft "act ''0'' Check" 0]
    l blindsPosted_check_invalid oneLeft_active noneLeft_active
  show ?thesis by simp
qed

text \<open>
  With one active player left the claim fails: a check by the player who has folded is
  rejected by both validators, yet \<open>processAction\<close> answers \<open>success = True\<close> and has
  moved the state to SHOWDOWN with a winner.
\<close>

theorem C8_automatic_win_counterexample:
  "\<not> isValid (validatePlayerAction oneLeft (act ''0'' Check))
   \<and> \<not> isValid (validatePlayerAction_PokerGame oneLeft (act ''0'' Check))
   \<and> success (processAction oneLeft (act ''0'' Check)) = True
   \<and> gameState_result (processAction oneLeft (act ''0'' Check)) \<noteq> oneLeft
   \<and> round oneLeft = PREFLOP
   \<and> round (gameState_result (processAction oneLeft (act ''0'' Check))) = SHOWDOWN
   \<and> winners (gameState_result (processAction oneLeft (act ''0'' Check))) = [1]"
proof -
  have f: "findPlayer oneLeft ''0'' = Some 0"
    by (simp add: findPlayer_def oneLeft_def mkState_def mkPlayer_def)
  have v1: "\<not> isValid (validatePlayerAction oneLeft (act ''0'' Check))"
    by (simp add: validatePlayerAction_def act_def f Let_def)
       (simp add: oneLeft_def mkState_def mkPlayer_def)
  have v2: "\<not> isValid (validatePlayerAction_PokerGame oneLeft (act ''0'' Check))"
    by (simp add: validatePlayerAction_PokerGame_def shouldHandEndEarly_def oneLeft_active)
  have r0: "round oneLeft = PREFLOP"
    by (simp add: oneLeft_def mkState_def)
  have w: "handleAutomaticWin oneLeft =
      (oneLeft\<lparr>round := SHOWDOWN,
               message := name (players oneLeft ! 1) @ '' wins by default (all others folded)!'',
               winners := [1]\<rparr>,
       Some (1, name (players oneLeft ! 1) @ '' wins by default (all others folded)!''))"
    by (simp add: handleAutomaticWin_def oneLeft_active Let_def)
  have p: "gameState_result (processAction oneLeft (act ''0'' Check)) =
      oneLeft\<lparr>round := SHOWDOWN,
               message := name (players oneLeft ! 1) @ '' wins by default (all others folded)!'',
               winners := [1]\<rparr>"
    and s: "success (processAction oneLeft (act ''0'' Check)) = True"
    by (simp_all add: processAction_def w)
  have ne: "gameState_result (processAction oneLeft (act ''0'' Check)) \<noteq> oneLeft"
  proof
    assume "gameState_result (processAction oneLeft (act ''0'' Check)) = oneLeft"
    then have "round (gameState_result (processAction oneLeft (act ''0'' Check))) = round oneLeft"
      by simp
    then show False
      by (simp add: p r0)
  qed
  show ?thesis
    using v1 v2 s ne r0 by (simp add: p)
qed


section \<open>The wheel\<close>

lemma insertBy_desc: "insertBy (\<lambda>a b. b - a) x ys = insort_key uminus x (ys :: int list)"
  by (induction ys) auto

lemma sortBy_desc: "sortBy (\<lambda>a b. b - a) xs = sort_key uminus (xs :: int list)"
  by (induction xs) (simp_all add: sortBy_def insertBy_desc)

lemma sortBy_desc_eq:
  fixes xs ys :: "int list"
  assumes "mset xs = mset ys" and "sorted (map uminus ys)"
  shows "sortBy (\<lambda>a b. b - a) xs = ys"
proof -
  have "sort_key uminus xs = ys"
  proof (rule properties_for_sort_key)
    show "mset ys = mset xs" using assms(1) by simp
    show "sorted (map uminus ys)" by (rule assms(2))
    fix k
    have "filter (\<lambda>x. k = x) ys = replicate (count (mset ys) k) k"
      by (simp add: replicate_count_mset_eq_filter_eq)
    also have "\<dots> = replicate (count (mset xs) k) k" using assms(1) by simp
    also have "\<dots> = filter (\<lambda>x. k = x) xs"
      by (simp add: replicate_count_mset_eq_filter_eq)
    finally show "filter (\<lambda>x. - k = - x) ys = filter (\<lambda>x. - k = - x) xs" by simp
  qed
  then show ?thesis by (simp add: sortBy_desc)
qed

lemma rankValues_of_mset:
  assumes "mset (map rank cards) = mset rs" and "sorted (map uminus (map rankToValue rs))"
  shows "sortBy (\<lambda>a b. b - a) (map (\<lambda>c. rankToValue (rank c)) cards) = map rankToValue rs"
proof (rule sortBy_desc_eq)
  have "mset (map (\<lambda>c. rankToValue (rank c)) cards) = image_mset rankToValue (mset (map rank cards))"
    by (simp add: multiset.map_comp comp_def)
  also have "\<dots> = mset (map rankToValue rs)" using assms(1) by simp
  finally show "mset (map (\<lambda>c. rankToValue (rank c)) cards) = mset (map rankToValue rs)" .
  show "sorted (map uminus (map rankToValue rs))" by (rule assms(2))
qed

lemma evaluateFive_wheel:
  assumes "mset (map rank cards) = {#A, R2, R3, R4, R5#}" and "\<not> allSameSuit cards"
  shows "evaluateFive cards = Inr \<lparr>rank_hand = STRAIGHT, tiebreaker = [5]\<rparr>"
proof -
  have rv: "sortBy (\<lambda>a b. b - a) (map (\<lambda>c. rankToValue (rank c)) cards) = [14, 5, 4, 3, 2]"
    using rankValues_of_mset[of cards "[A, R5, R4, R3, R2]"] assms(1) by simp
  show ?thesis
    unfolding evaluateFive_def rv Let_def
    using assms(2)
    by (simp add: checkSTRAIGHT_def sortBy_def countEntries_def)
qed

lemma evaluateFive_sixHigh:
  assumes "mset (map rank cards) = {#R2, R3, R4, R5, R6#}" and "\<not> allSameSuit cards"
  shows "evaluateFive cards = Inr \<lparr>rank_hand = STRAIGHT, tiebreaker = [6]\<rparr>"
proof -
  have rv: "sortBy (\<lambda>a b. b - a) (map (\<lambda>c. rankToValue (rank c)) cards) = [6, 5, 4, 3, 2]"
    using rankValues_of_mset[of cards "[R6, R5, R4, R3, R2]"] assms(1) by simp
  show ?thesis
    unfolding evaluateFive_def rv Let_def
    using assms(2)
    by (simp add: checkSTRAIGHT_def sortBy_def countEntries_def)
qed

lemma evaluateFive_aceHigh:
  assumes "mset (map rank cards) = {#R10, J, Q, K, A#}" and "\<not> allSameSuit cards"
  shows "evaluateFive cards = Inr \<lparr>rank_hand = STRAIGHT, tiebreaker = [14]\<rparr>"
proof -
  have rv: "sortBy (\<lambda>a b. b - a) (map (\<lambda>c. rankToValue (rank c)) cards) = [14, 13, 12, 11, 10]"
    using rankValues_of_mset[of cards "[A, K, Q, J, R10]"] assms(1) by simp
  show ?thesis
    unfolding evaluateFive_def rv Let_def
    using assms(2)
    by (simp add: checkSTRAIGHT_def sortBy_def countEntries_def)
qed

text \<open>
  Claim C5. Five cards with the ranks A, 2, 3, 4, 5 in any order, not all of one suit,
  evaluate to STRAIGHT with tiebreaker \<open>[5]\<close>. Every six-high straight (ranks 2 to 6,
  not all of one suit) evaluates to STRAIGHT \<open>[6]\<close> and \<open>compareHands\<close> puts the wheel
  strictly below it (and the six-high strictly above the wheel). A straight that uses
  the ace as 14 (10 to A) evaluates to STRAIGHT \<open>[14]\<close>, above the wheel too.
\<close>

theorem C5_wheel_is_five_high_straight:
  assumes "mset (map rank wheel) = {#A, R2, R3, R4, R5#}" and "\<not> allSameSuit wheel"
    and "mset (map rank six) = {#R2, R3, R4, R5, R6#}" and "\<not> allSameSuit six"
    and "mset (map rank broadway) = {#R10, J, Q, K, A#}" and "\<not> allSameSuit broadway"
  shows "evaluateFive wheel = Inr \<lparr>rank_hand = STRAIGHT, tiebreaker = [5]\<rparr>
     \<and> evaluateFive six = Inr \<lparr>rank_hand = STRAIGHT, tiebreaker = [6]\<rparr>
     \<and> evaluateFive broadway = Inr \<lparr>rank_hand = STRAIGHT, tiebreaker = [14]\<rparr>
     \<and> compareHands (projr (evaluateFive wheel)) (projr (evaluateFive six)) = Some (- 1)
     \<and> compareHands (projr (evaluateFive six)) (projr (evaluateFive wheel)) = Some 1
     \<and> compareHands (projr (evaluateFive wheel)) (projr (evaluateFive broadway)) = Some (- 9)"
  using evaluateFive_wheel[OF assms(1,2)] evaluateFive_sixHigh[OF assms(3,4)]
    evaluateFive_aceHigh[OF assms(5,6)]
  by (simp add: compareHands_def)

theorem C5_wheel_is_five_high_straight_witness:
  "mset (map rank wheelHand) = {#A, R2, R3, R4, R5#} \<and> \<not> allSameSuit wheelHand
   \<and> mset (map rank sixHighHand) = {#R2, R3, R4, R5, R6#} \<and> \<not> allSameSuit sixHighHand
   \<and> mset (map rank aceHighHand) = {#R10, J, Q, K, A#} \<and> \<not> allSameSuit aceHighHand
   \<and> evaluateFive wheelHand = Inr \<lparr>rank_hand = STRAIGHT, tiebreaker = [5]\<rparr>
   \<and> evaluateFive sixHighHand = Inr \<lparr>rank_hand = STRAIGHT, tiebreaker = [6]\<rparr>
   \<and> evaluateFive aceHighHand = Inr \<lparr>rank_hand = STRAIGHT, tiebreaker = [14]\<rparr>
   \<and> compareHands (projr (evaluateFive wheelHand)) (projr (evaluateFive sixHighHand))
       = Some (- 1)"
proof -
  have w: "mset (map rank wheelHand) = {#A, R2, R3, R4, R5#}" "\<not> allSameSuit wheelHand"
    by (simp_all add: wheelHand_def allSameSuit_def)
  have s: "mset (map rank sixHighHand) = {#R2, R3, R4, R5, R6#}" "\<not> allSameSuit sixHighHand"
    by (simp_all add: sixHighHand_def allSameSuit_def)
  have b: "mset (map rank aceHighHand) = {#R10, J, Q, K, A#}" "\<not> allSameSuit aceHighHand"
    by (simp_all add: aceHighHand_def allSameSuit_def)
  from C5_wheel_is_five_high_straight[OF w s b] w s b
  show ?thesis by (simp add: compareHands_def)
qed


section \<open>Side pots\<close>

lemma mset_insertBy: "mset (insertBy cmp x ys) = add_mset x (mset ys)"
  by (induction ys) auto

lemma mset_sortBy: "mset (sortBy cmp xs) = mset xs"
  by (induction xs) (simp_all add: sortBy_def mset_insertBy)










section \<open>Evaluation and showdown succeed on well-formed hands\<close>

lemma sum_countInsert: "sum_list (map snd (countInsert v acc)) = Suc (sum_list (map snd acc))"
  by (induction acc) auto


lemma sum_fold_countInsert:
  "sum_list (map snd (fold countInsert vs acc)) = length vs + sum_list (map snd acc)"
  by (induction vs arbitrary: acc) (simp_all add: sum_countInsert)


lemma sum_countEntries: "sum_list (map snd (countEntries vs)) = length vs"
  by (simp add: countEntries_def sum_fold_countInsert)


lemma length_sortBy: "length (sortBy cmp xs) = length xs"
  using mset_sortBy[of cmp xs] by (metis size_mset)


lemma sum_snd_sortBy: "sum_list (map snd (sortBy cmp xs)) = sum_list (map snd (xs :: (int \<times> nat) list))"
proof -
  have "sum_mset (image_mset snd (mset (sortBy cmp xs))) = sum_mset (image_mset snd (mset xs))"
    by (simp add: mset_sortBy)
  then show ?thesis
    by (metis mset_map sum_mset_sum_list)
qed


lemma grouped_five:
  assumes "length cards = 5"
  defines "rv \<equiv> sortBy (\<lambda>a b. b - a) (map (\<lambda>c. rankToValue (rank c)) cards)"
  defines "grouped \<equiv> sortBy (\<lambda>a b. if int (snd b) - int (snd a) \<noteq> 0
                                   then int (snd b) - int (snd a) else fst b - fst a)
                      (countEntries rv)"
  shows "sum_list (map snd grouped) = 5"
  using assms by (simp add: sum_snd_sortBy sum_countEntries length_sortBy)


lemma evaluateFive_total:
  assumes "length cards = 5"
  shows "\<exists>e. evaluateFive cards = Inr e"
proof -
  let ?rv = "sortBy (\<lambda>a b. b - a) (map (\<lambda>c. rankToValue (rank c)) cards)"
  let ?grouped = "sortBy (\<lambda>a b. if int (snd b) - int (snd a) \<noteq> 0
                                   then int (snd b) - int (snd a) else fst b - fst a)
                      (countEntries ?rv)"
  have s: "sum_list (map snd ?grouped) = 5"
    using grouped_five[OF assms] by simp
  then obtain v0 c0 others where g: "?grouped = (v0, c0) # others"
    by (cases ?grouped) auto
  have single: "others = [] \<Longrightarrow> c0 = 5" using s unfolding g by simp
  obtain st high where cs: "checkSTRAIGHT ?rv = (st, high)"
    by (cases "checkSTRAIGHT ?rv")
  show ?thesis
  proof (cases others)
    case Nil
    with single have "c0 = 5" by simp
    then show ?thesis
      unfolding evaluateFive_def Let_def g cs Nil by simp
  next
    case (Cons o1 rest)
    obtain v1 c1 where o1: "o1 = (v1, c1)" by (cases o1)
    show ?thesis
      unfolding evaluateFive_def Let_def g cs Cons o1 by simp
  qed
qed



lemma getCombinations_length: "c \<in> set (getCombinations xs k) \<Longrightarrow> length c = k"
proof (induction xs k arbitrary: c rule: getCombinations.induct)
  case (1 arr)
  then show ?case by simp
next
  case (2 k)
  then show ?case by simp
next
  case (3 first rest k)
  show ?case
  proof (cases "length (first # rest) < Suc k")
    case True
    with "3.prems" show ?thesis by simp
  next
    case False
    with "3.prems" consider "c \<in> set (getCombinations rest (Suc k))"
      | c' where "c = first # c'" "c' \<in> set (getCombinations rest k)"
      by auto
    then show ?thesis
    proof cases
      case 1
      then show ?thesis using "3.IH"(1)[OF False] by simp
    next
      case 2
      then show ?thesis using "3.IH"(2)[OF False] by simp
    qed
  qed
qed

lemma getCombinations_nonempty: "k \<le> length xs \<Longrightarrow> getCombinations xs k \<noteq> []"
proof (induction xs k rule: getCombinations.induct)
  case (1 arr)
  then show ?case by simp
next
  case (2 k)
  then show ?case by simp
next
  case (3 first rest k)
  then have nl: "\<not> length (first # rest) < Suc k" by simp
  from "3.prems" have "k \<le> length rest" by simp
  from "3.IH"(2)[OF nl this] show ?case using nl by simp
qed


lemma bestOfCombinations_total:
  assumes "\<forall>c \<in> set cs. \<exists>e. evaluateFive c = Inr e" and "cs \<noteq> [] \<or> b \<noteq> None"
  shows "\<exists>e. bestOfCombinations cs b = Inr (Some e)"
  using assms
proof (induction cs arbitrary: b)
  case Nil
  then show ?case by auto
next
  case (Cons c cs)
  from Cons.prems(1) obtain e where e: "evaluateFive c = Inr e" by auto
  have rest: "\<forall>c \<in> set cs. \<exists>e. evaluateFive c = Inr e" using Cons.prems(1) by simp
  show ?case
  proof (cases b)
    case None
    then show ?thesis using e Cons.IH[OF rest, of "Some e"] by simp
  next
    case (Some b0)
    then show ?thesis
      using e Cons.IH[OF rest, of "Some e"] Cons.IH[OF rest, of "Some b0"] by simp
  qed
qed


lemma evaluateBestHand_total:
  assumes "5 \<le> length cards" "length cards \<le> 7" "distinct cards"
  shows "\<exists>e. evaluateBestHand cards = Inr e"
proof -
  have a: "\<forall>c \<in> set (getCombinations cards 5). \<exists>e. evaluateFive c = Inr e"
    using getCombinations_length evaluateFive_total by blast
  have b: "getCombinations cards 5 \<noteq> []"
    using assms(1) by (rule getCombinations_nonempty)
  from bestOfCombinations_total[OF a, of None] b obtain e where
    "bestOfCombinations (getCombinations cards 5) None = Inr (Some e)" by auto
  then show ?thesis using assms by (simp add: evaluateBestHand_def)
qed











section \<open>Distribution of the pots\<close>

























section \<open>The equity simulator\<close>

lemma distinct_ALL_CARDS: "distinct ALL_CARDS"
  by (simp add: ALL_CARDS_def allSuits_def allRanks_def)

lemma set_ALL_CARDS: "set ALL_CARDS = UNIV"
proof -
  have "c \<in> set ALL_CARDS" for c
    by (cases c; cases "rank c"; cases "suit c")
       (simp_all add: ALL_CARDS_def allSuits_def allRanks_def)
  then show ?thesis by blast
qed

lemma card_UNIV_Card: "card (UNIV :: Card set) = 52"
  using distinct_card[OF distinct_ALL_CARDS] by (simp add: set_ALL_CARDS length_ALL_CARDS)

lemma finite_Card: "finite (S :: Card set)"
proof -
  have "finite (set ALL_CARDS)" by (rule List.finite_set)
  then have "finite (UNIV :: Card set)" by (simp only: set_ALL_CARDS)
  then show ?thesis by (rule finite_subset[OF subset_UNIV])
qed

lemma availableCards_props:
  assumes "distinct (pc @ cc)"
  shows "distinct (availableCards pc cc)"
    and "set (availableCards pc cc) = - set (pc @ cc)"
    and "length (availableCards pc cc) + length (pc @ cc) = 52"
proof -
  show d: "distinct (availableCards pc cc)"
    by (simp add: availableCards_def distinct_ALL_CARDS)
  show s: "set (availableCards pc cc) = - set (pc @ cc)"
    by (auto simp: availableCards_def set_ALL_CARDS)
  have "length (availableCards pc cc) = card (- set (pc @ cc))"
    using distinct_card[OF d] s by simp
  also have "\<dots> = card (UNIV :: Card set) - card (set (pc @ cc))"
    by (simp add: Compl_eq_Diff_UNIV card_Diff_subset finite_Card)
  also have "\<dots> = 52 - length (pc @ cc)"
    using distinct_card[OF assms] by (simp add: card_UNIV_Card)
  finally have "length (availableCards pc cc) = 52 - length (pc @ cc)" .
  moreover have "length (pc @ cc) \<le> 52"
    using distinct_card[OF assms] card_mono[of "UNIV :: Card set" "set (pc @ cc)"]
    by (simp add: card_UNIV_Card finite_Card)
  ultimately show "length (availableCards pc cc) + length (pc @ cc) = 52" by simp
qed

lemma completeCommunity_eq:
  "completeCommunity sh final idx =
     (final @ map (nthU sh) [idx..<idx + (5 - length final)], idx + (5 - length final))"
proof (induction sh final idx rule: completeCommunity.induct)
  case (1 sh final idx)
  show ?case
  proof (cases "length final < 5")
    case False
    then show ?thesis by (subst completeCommunity.simps) simp
  next
    case True
    then have e: "5 - length final = Suc (5 - length (final @ [nthU sh idx]))" by simp
    have u: "[idx..<idx + Suc m] = idx # [idx + 1..<idx + 1 + m]" for m
      by (simp add: upt_conv_Cons)
    show ?thesis
      apply (subst completeCommunity.simps)
      using True "1.IH"[OF True] unfolding e u by simp
  qed
qed

lemma map_nthU_take: "k \<le> length sh \<Longrightarrow> map (nthU sh) [0..<k] = map Some (take k sh)"
  by (auto simp: list_eq_iff_nth_eq nthU_def)

lemma duplicateScan_Some:
  "duplicateScan (map Some cs) seen =
     (if distinct cs \<and> set cs \<inter> set seen = {} then None else Some DUPLICATE_CARD)"
  by (induction cs arbitrary: seen) auto

lemma evaluateBestHandU_Some: "evaluateBestHandU (map Some cs) = evaluateBestHand cs"
  by (simp add: evaluateBestHandU_def evaluateBestHand_def duplicateScan_Some comp_def)

lemma nth_notin_take:
  assumes "distinct sh" "k \<le> j" "j < length sh"
  shows "sh ! j \<notin> set (take k sh)"
proof
  assume "sh ! j \<in> set (take k sh)"
  then obtain i where i: "i < length (take k sh)" "take k sh ! i = sh ! j"
    by (auto simp: in_set_conv_nth)
  then have "i < k" "i < length sh" "sh ! i = sh ! j" by simp_all
  with assms show False by (simp add: nth_eq_iff_index_eq)
qed

lemma opponent_hand_ok:
  assumes ds: "distinct sh" and dj: "set sh \<inter> set cc = {}" and dc: "distinct cc"
    and k: "length cc + k = 5" and ki: "k \<le> idx" and il: "idx + 1 < length sh"
  shows "\<exists>e. evaluateBestHandU ([nthU sh idx, nthU sh (idx + 1)] @ map Some (cc @ take k sh))
              = Inr e"
proof -
  let ?X = "[sh ! idx, sh ! (idx + 1)] @ cc @ take k sh"
  have kl: "k \<le> length sh" using ki il by simp
  have h: "[nthU sh idx, nthU sh (idx + 1)] @ map Some (cc @ take k sh) = map Some ?X"
    using il by (simp add: nthU_def)
  have m1: "sh ! idx \<in> set sh" "sh ! (idx + 1) \<in> set sh" using il by simp_all
  have n1: "sh ! idx \<notin> set cc" "sh ! (idx + 1) \<notin> set cc" using m1 dj by auto
  have n2: "sh ! idx \<notin> set (take k sh)" "sh ! (idx + 1) \<notin> set (take k sh)"
    using nth_notin_take[OF ds, of k idx] nth_notin_take[OF ds, of k "idx + 1"] ki il by simp_all
  have n3: "sh ! idx \<noteq> sh ! (idx + 1)" using ds il by (simp add: nth_eq_iff_index_eq)
  have n4: "set cc \<inter> set (take k sh) = {}" using dj set_take_subset[of k sh] by blast
  have dX: "distinct ?X" using n1 n2 n3 n4 dc ds by simp
  have lX: "length ?X = 7" using k kl by simp
  from evaluateBestHand_total[of ?X] dX lX obtain e where "evaluateBestHand ?X = Inr e" by auto
  then show ?thesis unfolding h evaluateBestHandU_Some by blast
qed

lemma evaluateOpponents_total:
  assumes ds: "distinct sh" and dj: "set sh \<inter> set cc = {}" and dc: "distinct cc"
    and k: "length cc + k = 5"
  shows "k \<le> idx \<Longrightarrow> idx + 2 * m \<le> length sh \<Longrightarrow>
     \<exists>es. evaluateOpponents (dealOpponents sh idx m) (map Some (cc @ take k sh)) = Inr es
          \<and> length es = m"
proof (induction m arbitrary: idx)
  case 0
  then show ?case by simp
next
  case (Suc m)
  from Suc.prems have il: "idx + 1 < length sh" by simp
  from opponent_hand_ok[OF ds dj dc k Suc.prems(1) il] obtain e where
    e: "evaluateBestHandU ([nthU sh idx, nthU sh (idx + 1)] @ map Some (cc @ take k sh)) = Inr e"
    by blast
  have "k \<le> idx + 2" "idx + 2 + 2 * m \<le> length sh" using Suc.prems by simp_all
  from Suc.IH[OF this] obtain es where
    es: "evaluateOpponents (dealOpponents sh (idx + 2) m) (map Some (cc @ take k sh)) = Inr es"
      "length es = m" by blast
  show ?case using e es by simp
qed

lemma runSingleSimulation_total:
  assumes lpc: "length pc = 2" and lcc: "3 \<le> length cc" "length cc \<le> 5"
    and d: "distinct (pc @ cc)"
    and perm: "mset (f (availableCards pc cc)) = mset (availableCards pc cc)"
    and n: "1 \<le> n" "n \<le> 22"
  shows "\<exists>r. runSingleSimulation f pc cc (availableCards pc cc) n = Inr r"
proof -
  let ?av = "availableCards pc cc"
  let ?sh = "f ?av"
  let ?k = "5 - length cc"
  note av = availableCards_props[OF d]
  have ds: "distinct ?sh" using perm av(1) by (metis mset_eq_imp_distinct_iff)
  have ss: "set ?sh = - set (pc @ cc)" using perm av(2) by (metis mset_eq_setD)
  have ls: "length ?sh + length (pc @ cc) = 52" using perm av(3) by (metis mset_eq_length)
  have kl: "?k \<le> length ?sh" using ls lpc lcc by simp
  have k5: "length cc + ?k = 5" using lcc by simp
  have cm: "completeCommunity ?sh (map Some cc) 0 = (map Some (cc @ take ?k ?sh), ?k)"
    using map_nthU_take[OF kl] by (simp add: completeCommunity_eq)
  have dj: "set ?sh \<inter> set cc = {}" using ss by auto
  have dc: "distinct cc" using d by simp
  let ?P = "pc @ cc @ take ?k ?sh"
  have "set (take ?k ?sh) \<inter> set (pc @ cc) = {}" using ss set_take_subset[of ?k ?sh] by blast
  then have dP: "distinct ?P" using d ds by auto
  have lP: "length ?P = 7" using lpc k5 kl by simp
  from evaluateBestHand_total[of ?P] dP lP obtain pe where pe: "evaluateBestHand ?P = Inr pe"
    by auto
  have pe': "evaluateBestHandU (map Some pc @ map Some (cc @ take ?k ?sh)) = Inr pe"
    using pe evaluateBestHandU_Some[of ?P] by simp
  let ?m = "nat n"
  have m: "?k + 2 * ?m \<le> length ?sh" using ls lpc lcc n by simp
  from evaluateOpponents_total[OF ds dj dc k5 order_refl m] obtain es where
    es: "evaluateOpponents (dealOpponents ?sh ?k ?m) (map Some (cc @ take ?k ?sh)) = Inr es"
      "length es = ?m" by blast
  from es(2) n obtain e0 es' where e0: "es = e0 # es'" by (cases es) auto
  show ?thesis
    unfolding runSingleSimulation_def Let_def cm
    using pe' es(1) e0 by simp
qed

lemma runSingleSimulation_no_opponent:
  assumes "n \<le> 0"
  shows "\<exists>e. runSingleSimulation f pc cc av n = Inl e"
proof -
  have z: "nat n = 0" using assms by simp
  obtain fc ci where c: "completeCommunity (f av) (map Some cc) 0 = (fc, ci)"
    by (cases "completeCommunity (f av) (map Some cc) 0")
  show ?thesis
    unfolding runSingleSimulation_def Let_def c z
    by (cases "evaluateBestHandU (map Some pc @ fc)") simp_all
qed

lemma runSingleSimulation_no_opponent_TypeError:
  assumes lpc: "length pc = 2" and lcc: "3 \<le> length cc" "length cc \<le> 5"
    and d: "distinct (pc @ cc)"
    and perm: "mset (f (availableCards pc cc)) = mset (availableCards pc cc)"
    and n: "n \<le> 0"
  shows "runSingleSimulation f pc cc (availableCards pc cc) n = Inl TypeError"
proof -
  let ?av = "availableCards pc cc"
  let ?sh = "f ?av"
  let ?k = "5 - length cc"
  note av = availableCards_props[OF d]
  have ds: "distinct ?sh" using perm av(1) by (metis mset_eq_imp_distinct_iff)
  have ss: "set ?sh = - set (pc @ cc)" using perm av(2) by (metis mset_eq_setD)
  have ls: "length ?sh + length (pc @ cc) = 52" using perm av(3) by (metis mset_eq_length)
  have kl: "?k \<le> length ?sh" using ls lpc lcc by simp
  have k5: "length cc + ?k = 5" using lcc by simp
  have cm: "completeCommunity ?sh (map Some cc) 0 = (map Some (cc @ take ?k ?sh), ?k)"
    using map_nthU_take[OF kl] by (simp add: completeCommunity_eq)
  let ?P = "pc @ cc @ take ?k ?sh"
  have "set (take ?k ?sh) \<inter> set (pc @ cc) = {}" using ss set_take_subset[of ?k ?sh] by blast
  then have dP: "distinct ?P" using d ds by auto
  have lP: "length ?P = 7" using lpc k5 kl by simp
  from evaluateBestHand_total[of ?P] dP lP obtain pe where pe: "evaluateBestHand ?P = Inr pe"
    by auto
  have pe': "evaluateBestHandU (map Some pc @ map Some (cc @ take ?k ?sh)) = Inr pe"
    using pe evaluateBestHandU_Some[of ?P] by simp
  have z: "nat n = 0" using n by simp
  show ?thesis
    unfolding runSingleSimulation_def Let_def cm z
    using pe' by simp
qed

lemma evaluateFive_error: "evaluateFive cs = Inl e \<Longrightarrow> e = TypeError"
  by (auto simp: evaluateFive_def Let_def split: prod.splits list.splits if_splits)

lemma bestOfCombinations_error: "bestOfCombinations cs b = Inl e \<Longrightarrow> e = TypeError"
proof (induction cs arbitrary: b)
  case Nil
  then show ?case by simp
next
  case (Cons c cs)
  show ?case
  proof (cases "evaluateFive c")
    case (Inl x)
    with Cons.prems have "e = x" by simp
    with Inl show ?thesis by (simp add: evaluateFive_error)
  next
    case (Inr v)
    with Cons.prems Cons.IH show ?thesis
      by (cases b) (auto split: if_splits)
  qed
qed

lemma evaluateBestHand_error: "evaluateBestHand cs = Inl e \<Longrightarrow> \<not> validationError e"
  by (auto simp: evaluateBestHand_def validationError_def split: if_splits sum.splits option.splits
      dest: bestOfCombinations_error)

lemma duplicateScan_error: "duplicateScan cs seen = Some e \<Longrightarrow> \<not> validationError e"
  by (induction cs seen rule: duplicateScan.induct)
     (auto simp: validationError_def split: if_splits)

lemma evaluateBestHandU_error: "evaluateBestHandU cs = Inl e \<Longrightarrow> \<not> validationError e"
  by (auto simp: evaluateBestHandU_def split: if_splits option.splits
      dest: duplicateScan_error evaluateBestHand_error)
     (simp_all add: validationError_def)

lemma evaluateOpponents_error: "evaluateOpponents hs fc = Inl e \<Longrightarrow> \<not> validationError e"
  by (induction hs) (auto split: sum.splits dest: evaluateBestHandU_error)

lemma runSingleSimulation_error:
  "runSingleSimulation f pc cc av n = Inl e \<Longrightarrow> \<not> validationError e"
  by (auto simp: runSingleSimulation_def Let_def validationError_def
      split: prod.splits sum.splits list.splits
      dest: evaluateBestHandU_error evaluateOpponents_error)

lemma runTrials_error:
  "runTrials sf pc cc av n trials t = Inl e \<Longrightarrow> \<not> validationError e"
  by (induction trials arbitrary: t) (auto split: sum.splits dest: runSingleSimulation_error)

lemma runSimulationSync_error:
  "runSimulationSync sf pc cc av n = Inl e \<Longrightarrow> \<not> validationError e"
  by (auto simp: runSimulationSync_def split: sum.splits dest: runTrials_error)

lemma tallyOutcome_total:
  "winsT (tallyOutcome t r) + tiesT (tallyOutcome t r) + lossesT (tallyOutcome t r)
   = winsT t + tiesT t + lossesT t + 1"
  by (simp add: tallyOutcome_def Let_def)

lemma runTrials_total:
  assumes "\<forall>i \<in> set trials. \<exists>r. runSingleSimulation (sf i) pc cc av n = Inr r"
  shows "\<exists>t'. runTrials sf pc cc av n trials t = Inr t'
     \<and> winsT t' + tiesT t' + lossesT t' = winsT t + tiesT t + lossesT t + length trials"
  using assms
proof (induction trials arbitrary: t)
  case Nil
  then show ?case by simp
next
  case (Cons i trials)
  then obtain r where r: "runSingleSimulation (sf i) pc cc av n = Inr r" by auto
  from Cons.prems have "\<forall>j \<in> set trials. \<exists>r. runSingleSimulation (sf j) pc cc av n = Inr r"
    by simp
  from Cons.IH[OF this, of "tallyOutcome t r"] obtain t' where
    "runTrials sf pc cc av n trials (tallyOutcome t r) = Inr t'"
    "winsT t' + tiesT t' + lossesT t'
       = winsT (tallyOutcome t r) + tiesT (tallyOutcome t r) + lossesT (tallyOutcome t r)
         + length trials"
    by blast
  then show ?case using r by (simp add: tallyOutcome_total)
qed

lemma runSimulationSync_total:
  assumes "\<forall>i < SIMULATION_COUNT. \<exists>r. runSingleSimulation (sf i) pc cc av n = Inr r"
  shows "\<exists>res. runSimulationSync sf pc cc av n = Inr res
     \<and> totalSimulations res = 10000 \<and> wins res + ties res + losses res = 10000"
proof -
  have "\<forall>i \<in> set [0..<SIMULATION_COUNT]. \<exists>r. runSingleSimulation (sf i) pc cc av n = Inr r"
    using assms by simp
  from runTrials_total[OF this, of "\<lparr>winsT = 0, tiesT = 0, lossesT = 0,
      playerHandStrengths = (\<lambda>h. 0), opponentStrengths = (\<lambda>h. 0)\<rparr>"]
  obtain t' where t': "runTrials sf pc cc av n [0..<SIMULATION_COUNT]
        \<lparr>winsT = 0, tiesT = 0, lossesT = 0, playerHandStrengths = (\<lambda>h. 0),
         opponentStrengths = (\<lambda>h. 0)\<rparr> = Inr t'"
      "winsT t' + tiesT t' + lossesT t' = SIMULATION_COUNT"
    by auto
  then show ?thesis
    by (simp add: runSimulationSync_def SIMULATION_COUNT_def)
qed

lemma runSimulationSync_first_fails:
  assumes "runSingleSimulation (sf 0) pc cc av n = Inl e"
  shows "runSimulationSync sf pc cc av n = Inl e"
proof -
  have "[0..<SIMULATION_COUNT] = 0 # [Suc 0..<SIMULATION_COUNT]"
    by (rule upt_conv_Cons) (simp add: SIMULATION_COUNT_def)
  then show ?thesis using assms by (simp add: runSimulationSync_def)
qed

lemma runSimulation_validation:
  "(\<exists>e. runSimulation cache sf pc cc n = Inl e \<and> validationError e)
   \<longleftrightarrow> (length pc \<noteq> 2 \<or> length cc < 3 \<or> 5 < length cc)"
proof (cases "length pc \<noteq> 2 \<or> length cc < 3 \<or> 5 < length cc")
  case True
  then show ?thesis by (auto simp: runSimulation_def validationError_def)
next
  case False
  have "\<not> validationError e" if "runSimulation cache sf pc cc n = Inl e" for e
    using that False
    by (auto simp: runSimulation_def Let_def split: option.splits sum.splits
        dest: runSimulationSync_error)
  with False show ?thesis by blast
qed

lemma runSimulation_total:
  assumes lpc: "length pc = 2" and lcc: "3 \<le> length cc" "length cc \<le> 5"
    and d: "distinct (pc @ cc)"
    and n: "1 \<le> n" "n \<le> 22"
    and perm: "\<forall>i < SIMULATION_COUNT.
        mset (sf i (availableCards pc cc)) = mset (availableCards pc cc)"
  shows "\<exists>res cache'. runSimulation cache sf pc cc n = Inr (res, cache')
     \<and> (map_of cache (createCacheKey pc cc n) = None \<longrightarrow>
          totalSimulations res = 10000 \<and> wins res + ties res + losses res = 10000)"
proof (cases "map_of cache (createCacheKey pc cc n)")
  case (Some cached)
  then show ?thesis using lpc lcc by (simp add: runSimulation_def)
next
  case None
  have "\<forall>i < SIMULATION_COUNT.
      \<exists>r. runSingleSimulation (sf i) pc cc (availableCards pc cc) n = Inr r"
    using runSingleSimulation_total[of pc cc _ n] lpc lcc d n perm by blast
  from runSimulationSync_total[OF this] obtain res where
    "runSimulationSync sf pc cc (availableCards pc cc) n = Inr res"
    "totalSimulations res = 10000" "wins res + ties res + losses res = 10000"
    by blast
  then show ?thesis using None lpc lcc by (simp add: runSimulation_def Let_def)
qed

lemma runSimulation_no_opponent:
  assumes lpc: "length pc = 2" and lcc: "3 \<le> length cc" "length cc \<le> 5"
    and d: "distinct (pc @ cc)"
    and n: "n \<le> 0"
    and perm: "mset (sf 0 (availableCards pc cc)) = mset (availableCards pc cc)"
    and miss: "map_of cache (createCacheKey pc cc n) = None"
  shows "runSimulation cache sf pc cc n = Inl TypeError"
proof -
  have "runSingleSimulation (sf 0) pc cc (availableCards pc cc) n = Inl TypeError"
    using runSingleSimulation_no_opponent_TypeError[of pc cc "sf 0" n] lpc lcc d perm n
    by blast
  then have "runSimulationSync sf pc cc (availableCards pc cc) n = Inl TypeError"
    by (rule runSimulationSync_first_fails)
  then show ?thesis using lpc lcc miss by (simp add: runSimulation_def Let_def)
qed

text \<open>
  What holds of the contract. \<open>runSimulation\<close> throws one of its two validation errors
  exactly when the player does not have two cards or the community cards are not three
  to five; the number of opponents is not validated. For two hole cards and three to five
  community cards without a duplicate among them, and one to twenty-two opponents (the
  45 to 47 remaining cards suffice for the board and two cards each), whatever the
  shuffles are, it returns a prediction; computed afresh, it counts 10000 trials, each a
  win, a tie or a loss.
\<close>

lemma runSimulation_contract:
  "((\<exists>e. runSimulation cache shuffleOf pc cc n = Inl e \<and> validationError e)
      \<longleftrightarrow> (length pc \<noteq> 2 \<or> length cc < 3 \<or> 5 < length cc))
   \<and> (length pc = 2 \<and> 3 \<le> length cc \<and> length cc \<le> 5 \<and> distinct (pc @ cc)
        \<and> 1 \<le> n \<and> n \<le> 22
        \<and> (\<forall>i < SIMULATION_COUNT.
              mset (shuffleOf i (availableCards pc cc)) = mset (availableCards pc cc))
      \<longrightarrow> (\<exists>res cache'. runSimulation cache shuffleOf pc cc n = Inr (res, cache')
             \<and> (map_of cache (createCacheKey pc cc n) = None \<longrightarrow>
                  totalSimulations res = 10000
                  \<and> wins res + ties res + losses res = 10000)))"
  using runSimulation_validation[of cache shuffleOf pc cc n]
    runSimulation_total[of pc cc n shuffleOf cache]
  by blast

lemma scenarioE_input:
  "length pocketAces = 2" "3 \<le> length flop279" "length flop279 \<le> 5"
  "distinct (pocketAces @ flop279)"
  by (simp_all add: pocketAces_def flop279_def)

lemma runSimulation_one_opponent:
  "\<exists>res cache'. runSimulation [] noShuffle pocketAces flop279 1 = Inr (res, cache')
         \<and> totalSimulations res = 10000 \<and> wins res + ties res + losses res = 10000"
proof -
  have p: "\<forall>i < SIMULATION_COUNT.
      mset (noShuffle i (availableCards pocketAces flop279))
        = mset (availableCards pocketAces flop279)"
    by (simp add: noShuffle_def)
  have m: "map_of [] (createCacheKey pocketAces flop279 1) = (None :: PredictionResult option)"
    by simp
  from runSimulation_contract[of "[]" noShuffle pocketAces flop279 1] scenarioE_input p m
  show ?thesis by simp
qed

text \<open>
  Claim C9 fails where it names the case: without an opponent. For two hole cards and
  three to five community cards without a duplicate, a first shuffle that rearranges the
  available cards and no cached result, which is an input that satisfies the stated
  contract, no opponent hand is evaluated, \<^verbatim>\<open>opponentEvaluations[0]\<close> is
  \<^verbatim>\<open>undefined\<close>, \<^verbatim>\<open>compareHands\<close> reads its \<^verbatim>\<open>rank\<close>, and the first trial
  ends the call in a \<open>TypeError\<close>, which is not a validation error.
\<close>

theorem C9_no_opponent_type_error:
  assumes "length pc = 2" and "3 \<le> length cc" and "length cc \<le> 5"
    and "distinct (pc @ cc)"
    and "mset (shuffleOf 0 (availableCards pc cc)) = mset (availableCards pc cc)"
    and "map_of cache (createCacheKey pc cc 0) = None"
  shows "runSimulation cache shuffleOf pc cc 0 = Inl TypeError
     \<and> \<not> validationError TypeError"
  using runSimulation_no_opponent[of pc cc 0 shuffleOf cache] assms
  by (simp add: validationError_def)

theorem C9_no_opponent_type_error_witness:
  "length pocketAces = 2 \<and> 3 \<le> length flop279 \<and> length flop279 \<le> 5
   \<and> distinct (pocketAces @ flop279)
   \<and> mset (noShuffle 0 (availableCards pocketAces flop279))
        = mset (availableCards pocketAces flop279)
   \<and> runSimulation [] noShuffle pocketAces flop279 0 = Inl TypeError
   \<and> \<not> validationError TypeError"
proof -
  have p: "mset (noShuffle 0 (availableCards pocketAces flop279))
        = mset (availableCards pocketAces flop279)"
    by (simp add: noShuffle_def)
  have m: "map_of [] (createCacheKey pocketAces flop279 0) = (None :: PredictionResult option)"
    by simp
  from C9_no_opponent_type_error[of pocketAces flop279 noShuffle "[]"] scenarioE_input p m
  show ?thesis by simp
qed

end
